theory Spec2Isabelle
  imports Complex_Main "HOL-Library.Sublist" "HOL-Library.Multiset" "HOL-Library.Log_Nat"
begin

section \<open>JavaScript strings\<close>

text \<open>
  A JavaScript string is a sequence of UTF-16 code units; \<open>includes\<close>, \<open>split\<close>,
  \<open>trim\<close> and the regular expressions of the program all work on code units. A string
  is therefore modelled as the list of its code units (numbers below \<open>0x10000\<close>), and the
  keyword tables of the program are written out as code units.
\<close>

type_synonym jsstring = "nat list"

text \<open>ASCII literals: \<open>js ''asin''\<close> is the JavaScript string \<open>"asin"\<close>.\<close>

definition js :: "string \<Rightarrow> jsstring" where
  "js s = map of_char s"

text \<open>\<open>s.includes(w)\<close>: \<open>w\<close> occurs in \<open>s\<close> as a contiguous run of code units.\<close>

fun includes_js :: "jsstring \<Rightarrow> jsstring \<Rightarrow> bool" where
  "includes_js [] w = (w = [])"
| "includes_js (c # cs) w = (prefix w (c # cs) \<or> includes_js cs w)"

text \<open>\<open>KEYWORDS.some((kw) => title.includes(kw))\<close>.\<close>

definition some_includes :: "jsstring list \<Rightarrow> jsstring \<Rightarrow> bool" where
  "some_includes kws title = list_ex (\<lambda>kw. includes_js title kw) kws"

section \<open>Category classifier (qoo10Category.ts)\<close>

datatype MainCategoryCode =
    Main_120000      \<comment> \<open>beauty\<close>
  | Main_130000      \<comment> \<open>supplements, health food\<close>
  | Main_120000033   \<comment> \<open>beauty and health appliances\<close>
  | Main_100000018   \<comment> \<open>daily goods (razors)\<close>

datatype BeautyCatCode =
    Cat_120000012    \<comment> \<open>skin care\<close>
  | Cat_120000013    \<comment> \<open>base make-up\<close>
  | Cat_120000014    \<comment> \<open>point make-up\<close>
  | Cat_120000017    \<comment> \<open>UV care\<close>
  | Cat_120000018    \<comment> \<open>body, hand and foot care\<close>
  | Cat_120000020    \<comment> \<open>hair care\<close>
  | Cat_120000021    \<comment> \<open>nail\<close>
  | Cat_120000022    \<comment> \<open>fragrance\<close>

record Qoo10CategoryDecision =
  main :: MainCategoryCode
  beautySecondSubCat :: "BeautyCatCode option"

record BeautyRule =
  br_code :: BeautyCatCode
  br_keywords :: "jsstring list"

definition SUPPLEMENT_KEYWORDS :: "jsstring list" where
  "SUPPLEMENT_KEYWORDS =
    [[0x30B5, 0x30D7, 0x30EA, 0x30E1, 0x30F3, 0x30C8],
    [0x30B5, 0x30D7, 0x30EA],
    [0x5065, 0x5EB7, 0x98DF, 0x54C1],
    [0x6A5F, 0x80FD, 0x6027, 0x8868, 0x793A, 0x98DF, 0x54C1],
    [0x30D7, 0x30ED, 0x30C6, 0x30A4, 0x30F3],
    [0x30DB, 0x30A8, 0x30A4, 0x30D7, 0x30ED, 0x30C6, 0x30A4, 0x30F3],
    [0x30BD, 0x30A4, 0x30D7, 0x30ED, 0x30C6, 0x30A4, 0x30F3],
    [0x9752, 0x6C41],
    [0x9175, 0x7D20],
    [0x4E73, 0x9178, 0x83CC],
    [0x30AA, 0x30E1, 0x30AC, 0x0033],
    [0x0045, 0x0050, 0x0041],
    [0x0044, 0x0048, 0x0041],
    [0x30C0, 0x30A4, 0x30A8, 0x30C3, 0x30C8, 0x30B5, 0x30D7, 0x30EA],
    [0x7F8E, 0x5BB9, 0x30B5, 0x30D7, 0x30EA]]"

definition BEAUTY_APPLIANCE_KEYWORDS :: "jsstring list" where
  "BEAUTY_APPLIANCE_KEYWORDS =
    [[0x30C9, 0x30E9, 0x30A4, 0x30E4, 0x30FC],
    [0x30D8, 0x30A2, 0x30C9, 0x30E9, 0x30A4, 0x30E4, 0x30FC],
    [0x30D8, 0x30A2, 0x30FC, 0x30C9, 0x30E9, 0x30A4, 0x30E4, 0x30FC],
    [0x30D8, 0x30A2, 0x30A2, 0x30A4, 0x30ED, 0x30F3],
    [0x30B9, 0x30C8, 0x30EC, 0x30FC, 0x30C8, 0x30A2, 0x30A4, 0x30ED, 0x30F3],
    [0x30AB, 0x30FC, 0x30EB, 0x30A2, 0x30A4, 0x30ED, 0x30F3],
    [0x0032, 0x0057, 0x0041, 0x0059, 0x30A2, 0x30A4, 0x30ED, 0x30F3],
    [0x0032, 0x0057, 0x0041, 0x0059, 0x0020, 0x30D8, 0x30A2, 0x30A2, 0x30A4, 0x30ED, 0x30F3],
    [0x30B3, 0x30C6],
    [0x7F8E, 0x9854, 0x5668],
    [0x30D5, 0x30A7, 0x30A4, 0x30B9, 0x30B9, 0x30C1, 0x30FC, 0x30DE, 0x30FC],
    [0x30A4, 0x30AA, 0x30F3, 0x30B9, 0x30C1, 0x30FC, 0x30DE, 0x30FC],
    [0x30B9, 0x30C1, 0x30FC, 0x30DE, 0x30FC]]"

definition ELECTRIC_HINTS :: "jsstring list" where
  "ELECTRIC_HINTS =
    [[0x96FB, 0x52D5],
    [0x96FB, 0x6C17],
    [0x5145, 0x96FB, 0x5F0F],
    [0x30B3, 0x30FC, 0x30C9, 0x30EC, 0x30B9],
    [0x0049, 0x0050, 0x0058],
    [0x9632, 0x6C34]]"

definition RAZOR_KEYWORDS :: "jsstring list" where
  "RAZOR_KEYWORDS =
    [[0x30AB, 0x30DF, 0x30BD, 0x30EA],
    [0x9AED, 0x5243, 0x308A],
    [0x3072, 0x3052, 0x305D, 0x308A],
    [0x30D2, 0x30B2, 0x30BD, 0x30EA],
    [0x30B7, 0x30A7, 0x30FC, 0x30D0, 0x30FC],
    [0x30B7, 0x30A7, 0x30A4, 0x30D0, 0x30FC]]"

definition DAILY_RAZOR_HINTS :: "jsstring list" where
  "DAILY_RAZOR_HINTS =
    [[0x66FF, 0x5203],
    [0x66FF, 0x3048, 0x5203],
    [0x30DB, 0x30EB, 0x30C0, 0x30FC, 0x0028, 0x5203, 0x4ED8, 0x304D],
    [0x5243, 0x5200]]"

definition BEAUTY_RULES :: "BeautyRule list" where
  "BEAUTY_RULES =
   [\<lparr>br_code = Cat_120000017, br_keywords =
      [[0x65E5, 0x713C, 0x3051, 0x6B62, 0x3081],
      [0x0055, 0x0056, 0x30B1, 0x30A2],
      [0x0055, 0x0056, 0x30AB, 0x30C3, 0x30C8],
      [0x30B5, 0x30F3, 0x30B9, 0x30AF, 0x30EA, 0x30FC, 0x30F3],
      [0x30B5, 0x30F3, 0x30D6, 0x30ED, 0x30C3, 0x30AF],
      [0x30B5, 0x30F3, 0x30D7, 0x30ED, 0x30C6, 0x30AF, 0x30BF, 0x30FC],
      [0x30B5, 0x30F3, 0x30AF, 0x30C3, 0x30B7, 0x30E7, 0x30F3],
      [0x0055, 0x0056, 0x30AF, 0x30EA, 0x30FC, 0x30E0],
      [0x0055, 0x0056, 0x30DF, 0x30EB, 0x30AF],
      [0x0055, 0x0056, 0x30B8, 0x30A7, 0x30EB]]\<rparr>,
    \<lparr>br_code = Cat_120000013, br_keywords =
      [[0x30D5, 0x30A1, 0x30F3, 0x30C7, 0x30FC, 0x30B7, 0x30E7, 0x30F3],
      [0x30AF, 0x30C3, 0x30B7, 0x30E7, 0x30F3, 0x30D5, 0x30A1, 0x30F3, 0x30C7],
      [0x30AF, 0x30C3, 0x30B7, 0x30E7, 0x30F3, 0x30D5, 0x30A1, 0x30F3, 0x30C7, 0x30FC, 0x30B7, 0x30E7, 0x30F3],
      [0x30EA, 0x30AD, 0x30C3, 0x30C9, 0x30D5, 0x30A1, 0x30F3, 0x30C7],
      [0x30D1, 0x30A6, 0x30C0, 0x30FC, 0x30D5, 0x30A1, 0x30F3, 0x30C7],
      [0x0042, 0x0042, 0x30AF, 0x30EA, 0x30FC, 0x30E0],
      [0x0043, 0x0043, 0x30AF, 0x30EA, 0x30FC, 0x30E0],
      [0x5316, 0x7CA7, 0x4E0B, 0x5730],
      [0x30E1, 0x30A4, 0x30AF, 0x4E0B, 0x5730],
      [0x30D7, 0x30E9, 0x30A4, 0x30DE, 0x30FC],
      [0x30B3, 0x30F3, 0x30B7, 0x30FC, 0x30E9, 0x30FC],
      [0x30D5, 0x30A7, 0x30A4, 0x30B9, 0x30D1, 0x30A6, 0x30C0, 0x30FC],
      [0x30EB, 0x30FC, 0x30B9, 0x30D1, 0x30A6, 0x30C0, 0x30FC],
      [0x30D7, 0x30EC, 0x30B9, 0x30C8, 0x30D1, 0x30A6, 0x30C0, 0x30FC],
      [0x30C8, 0x30FC, 0x30F3, 0x30A2, 0x30C3, 0x30D7, 0x30D9, 0x30FC, 0x30B9],
      [0x30C8, 0x30FC, 0x30F3, 0x30A2, 0x30C3, 0x30D7, 0x30AF, 0x30EA, 0x30FC, 0x30E0]]\<rparr>,
    \<lparr>br_code = Cat_120000014, br_keywords =
      [[0x30A2, 0x30A4, 0x30B7, 0x30E3, 0x30C9, 0x30A6],
      [0x30A2, 0x30A4, 0x30B0, 0x30ED, 0x30B9],
      [0x30A2, 0x30A4, 0x30E9, 0x30A4, 0x30CA, 0x30FC],
      [0x30B8, 0x30A7, 0x30EB, 0x30E9, 0x30A4, 0x30CA, 0x30FC],
      [0x30DA, 0x30F3, 0x30B7, 0x30EB, 0x30E9, 0x30A4, 0x30CA, 0x30FC],
      [0x30DE, 0x30B9, 0x30AB, 0x30E9],
      [0x30C1, 0x30FC, 0x30AF],
      [0x30D6, 0x30E9, 0x30C3, 0x30B7, 0x30E5],
      [0x30CF, 0x30A4, 0x30E9, 0x30A4, 0x30C8],
      [0x30B7, 0x30A7, 0x30FC, 0x30C7, 0x30A3, 0x30F3, 0x30B0],
      [0x30B3, 0x30F3, 0x30C8, 0x30A5, 0x30A2],
      [0x30EA, 0x30C3, 0x30D7],
      [0x53E3, 0x7D05],
      [0x30B0, 0x30ED, 0x30B9],
      [0x30C6, 0x30A3, 0x30F3, 0x30C8],
      [0x30EA, 0x30C3, 0x30D7, 0x30AA, 0x30A4, 0x30EB],
      [0x30EA, 0x30C3, 0x30D7, 0x30D0, 0x30FC, 0x30E0],
      [0x30A2, 0x30A4, 0x30D6, 0x30ED, 0x30A6],
      [0x7709, 0x30DE, 0x30B9, 0x30AB, 0x30E9],
      [0x30D6, 0x30ED, 0x30A6]]\<rparr>,
    \<lparr>br_code = Cat_120000020, br_keywords =
      [[0x30B7, 0x30E3, 0x30F3, 0x30D7, 0x30FC],
      [0xFF7C, 0xFF6C, 0xFF9D, 0xFF8C, 0xFF9F, 0xFF70],
      [0x30B3, 0x30F3, 0x30C7, 0x30A3, 0x30B7, 0x30E7, 0x30CA, 0x30FC],
      [0x30C8, 0x30EA, 0x30FC, 0x30C8, 0x30E1, 0x30F3, 0x30C8],
      [0x30D8, 0x30A2, 0x30DE, 0x30B9, 0x30AF],
      [0x30D8, 0x30A2, 0x30D1, 0x30C3, 0x30AF],
      [0x30D8, 0x30A2, 0x30AA, 0x30A4, 0x30EB],
      [0x30D8, 0x30A2, 0x30DF, 0x30B9, 0x30C8],
      [0x30D8, 0x30A2, 0x30A8, 0x30C3, 0x30BB, 0x30F3, 0x30B9],
      [0x30D8, 0x30A2, 0x30B9, 0x30D7, 0x30EC, 0x30FC],
      [0x30D8, 0x30A2, 0x30EF, 0x30C3, 0x30AF, 0x30B9],
      [0x30B9, 0x30BF, 0x30A4, 0x30EA, 0x30F3, 0x30B0],
      [0x30B9, 0x30BF, 0x30A4, 0x30EA, 0x30F3, 0x30B0, 0x30B8, 0x30A7, 0x30EB],
      [0x80B2, 0x6BDB, 0x5264],
      [0x30B9, 0x30AB, 0x30EB, 0x30D7],
      [0x982D, 0x76AE, 0x30B1, 0x30A2],
      [0x30D8, 0x30A2, 0x30AB, 0x30E9, 0x30FC],
      [0x767D, 0x9AEA, 0x67D3, 0x3081],
      [0x30D8, 0x30CA]]\<rparr>,
    \<lparr>br_code = Cat_120000021, br_keywords =
      [[0x30CD, 0x30A4, 0x30EB],
      [0x30DE, 0x30CB, 0x30AD, 0x30E5, 0x30A2],
      [0x30B8, 0x30A7, 0x30EB, 0x30CD, 0x30A4, 0x30EB],
      [0x30C8, 0x30C3, 0x30D7, 0x30B3, 0x30FC, 0x30C8],
      [0x30D9, 0x30FC, 0x30B9, 0x30B3, 0x30FC, 0x30C8],
      [0x30CD, 0x30A4, 0x30EB, 0x30DD, 0x30EA, 0x30C3, 0x30B7, 0x30E5],
      [0x30CD, 0x30A4, 0x30EB, 0x30AB, 0x30E9, 0x30FC],
      [0x30CD, 0x30A4, 0x30EB, 0x30AA, 0x30A4, 0x30EB],
      [0x30AD, 0x30E5, 0x30FC, 0x30C6, 0x30A3, 0x30AF, 0x30EB, 0x30AA, 0x30A4, 0x30EB]]\<rparr>,
    \<lparr>br_code = Cat_120000022, br_keywords =
      [[0x9999, 0x6C34],
      [0x30D5, 0x30EC, 0x30B0, 0x30E9, 0x30F3, 0x30B9],
      [0x30AA, 0x30FC, 0x30C9, 0x30C8, 0x30EF, 0x30EC],
      [0x30AA, 0x30FC, 0x30C9, 0x30D1, 0x30EB, 0x30D5, 0x30A1, 0x30E0],
      [0x30AA, 0x30FC, 0x30C7, 0x30B3, 0x30ED, 0x30F3],
      [0x30DC, 0x30C7, 0x30A3, 0x30DF, 0x30B9, 0x30C8],
      [0x30D8, 0x30A2, 0x30DF, 0x30B9, 0x30C8],
      [0x30D1, 0x30EB, 0x30D5, 0x30A1, 0x30E0]]\<rparr>,
    \<lparr>br_code = Cat_120000018, br_keywords =
      [[0x30DC, 0x30C7, 0x30A3, 0x30AF, 0x30EA, 0x30FC, 0x30E0],
      [0x30DC, 0x30C7, 0x30A3, 0x30DF, 0x30EB, 0x30AF],
      [0x30DC, 0x30C7, 0x30A3, 0x30ED, 0x30FC, 0x30B7, 0x30E7, 0x30F3],
      [0x30DC, 0x30C7, 0x30A3, 0x30B8, 0x30A7, 0x30EB],
      [0x30DC, 0x30C7, 0x30A3, 0x30AA, 0x30A4, 0x30EB],
      [0x30DC, 0x30C7, 0x30A3, 0x30BD, 0x30FC, 0x30D7],
      [0x30DC, 0x30C7, 0x30A3, 0x30A6, 0x30A9, 0x30C3, 0x30B7, 0x30E5],
      [0x30B7, 0x30E3, 0x30EF, 0x30FC, 0x30B8, 0x30A7, 0x30EB],
      [0x30CF, 0x30F3, 0x30C9, 0x30AF, 0x30EA, 0x30FC, 0x30E0],
      [0x30CF, 0x30F3, 0x30C9, 0x30B8, 0x30A7, 0x30EB],
      [0x30CF, 0x30F3, 0x30C9, 0x30ED, 0x30FC, 0x30B7, 0x30E7, 0x30F3],
      [0x30D5, 0x30C3, 0x30C8, 0x30AF, 0x30EA, 0x30FC, 0x30E0],
      [0x30D5, 0x30C3, 0x30C8, 0x30B1, 0x30A2],
      [0x30DC, 0x30C7, 0x30A3, 0x30B9, 0x30AF, 0x30E9, 0x30D6],
      [0x30DC, 0x30C7, 0x30A3, 0x30B9, 0x30AF, 0x30E9, 0x30C3, 0x30D7],
      [0x30D0, 0x30B9, 0x30BD, 0x30EB, 0x30C8],
      [0x5165, 0x6D74, 0x5264],
      [0x30D0, 0x30B9, 0x30DC, 0x30E0],
      [0x30C7, 0x30AA, 0x30C9, 0x30E9, 0x30F3, 0x30C8],
      [0x5236, 0x6C57],
      [0x30DC, 0x30C7, 0x30A3, 0x30D0, 0x30BF, 0x30FC],
      [0x30DC, 0x30C7, 0x30A3, 0x30DF, 0x30B9, 0x30C8]]\<rparr>,
    \<lparr>br_code = Cat_120000012, br_keywords =
      [[0x5316, 0x7CA7, 0x6C34],
      [0x30ED, 0x30FC, 0x30B7, 0x30E7, 0x30F3],
      [0x30C8, 0x30CA, 0x30FC],
      [0x4E73, 0x6DB2],
      [0x30A8, 0x30DE, 0x30EB, 0x30B8, 0x30E7, 0x30F3],
      [0x7F8E, 0x5BB9, 0x6DB2],
      [0x30BB, 0x30E9, 0x30E0],
      [0x30A8, 0x30C3, 0x30BB, 0x30F3, 0x30B9],
      [0x30A2, 0x30F3, 0x30D7, 0x30EB],
      [0x30AF, 0x30EA, 0x30FC, 0x30E0],
      [0x30B8, 0x30A7, 0x30EB, 0x30AF, 0x30EA, 0x30FC, 0x30E0],
      [0x30B8, 0x30A7, 0x30EB],
      [0x30AA, 0x30FC, 0x30EB, 0x30A4, 0x30F3, 0x30EF, 0x30F3, 0x30B8, 0x30A7, 0x30EB],
      [0x30AA, 0x30FC, 0x30EB, 0x30A4, 0x30F3, 0x30EF, 0x30F3, 0x30B2, 0x30EB],
      [0x30AF, 0x30EC, 0x30F3, 0x30B8, 0x30F3, 0x30B0],
      [0x30AF, 0x30EC, 0x30F3, 0x30B8, 0x30F3, 0x30B0, 0x30AA, 0x30A4, 0x30EB],
      [0x30AF, 0x30EC, 0x30F3, 0x30B8, 0x30F3, 0x30B0, 0x30D0, 0x30FC, 0x30E0],
      [0x30AF, 0x30EC, 0x30F3, 0x30B8, 0x30F3, 0x30B0, 0x30B8, 0x30A7, 0x30EB],
      [0x30AF, 0x30EC, 0x30F3, 0x30B8, 0x30F3, 0x30B0, 0x30DF, 0x30EB, 0x30AF],
      [0x6D17, 0x9854],
      [0x6D17, 0x9854, 0x30D5, 0x30A9, 0x30FC, 0x30E0],
      [0x30D5, 0x30A9, 0x30FC, 0x30E0, 0x30AF, 0x30EC, 0x30F3, 0x30B6, 0x30FC],
      [0x30B7, 0x30FC, 0x30C8, 0x30DE, 0x30B9, 0x30AF],
      [0x30D5, 0x30A7, 0x30A4, 0x30B9, 0x30DE, 0x30B9, 0x30AF],
      [0x30DE, 0x30B9, 0x30AF],
      [0x30D1, 0x30C3, 0x30AF],
      [0x30B9, 0x30EA, 0x30FC, 0x30D4, 0x30F3, 0x30B0, 0x30DE, 0x30B9, 0x30AF],
      [0x30B9, 0x30EA, 0x30FC, 0x30D4, 0x30F3, 0x30B0, 0x30D1, 0x30C3, 0x30AF],
      [0x30D4, 0x30FC, 0x30EA, 0x30F3, 0x30B0],
      [0x30B9, 0x30AF, 0x30E9, 0x30D6],
      [0x89D2, 0x8CEA, 0x30B1, 0x30A2],
      [0x0043, 0x0049, 0x0043, 0x0041],
      [0x30B7, 0x30AB],
      [0x7F8E, 0x767D, 0x7F8E, 0x5BB9, 0x6DB2],
      [0x6BDB, 0x7A74, 0x30B1, 0x30A2]]\<rparr>]"

definition isSupplement :: "jsstring \<Rightarrow> bool" where
  "isSupplement title = some_includes SUPPLEMENT_KEYWORDS title"

definition isBeautyAppliance :: "jsstring \<Rightarrow> bool" where
  "isBeautyAppliance title =
     (if some_includes BEAUTY_APPLIANCE_KEYWORDS title then True
      else if some_includes RAZOR_KEYWORDS title \<and> some_includes ELECTRIC_HINTS title then True
      else False)"

definition isDailyRazor :: "jsstring \<Rightarrow> bool" where
  "isDailyRazor title =
     (if \<not> some_includes RAZOR_KEYWORDS title then False
      else if \<not> some_includes ELECTRIC_HINTS title then True
      else if some_includes DAILY_RAZOR_HINTS title then True
      else False)"

text \<open>\<open>titleRaw ?? ""\<close>: a \<open>null\<close> or \<open>undefined\<close> title is \<open>None\<close>.\<close>

definition getMainCategoryCode :: "jsstring option \<Rightarrow> MainCategoryCode" where
  "getMainCategoryCode titleRaw =
     (let title = (case titleRaw of None \<Rightarrow> [] | Some t \<Rightarrow> t) in
      if isSupplement title then Main_130000
      else if isBeautyAppliance title then Main_120000033
      else if isDailyRazor title then Main_100000018
      else Main_120000)"

text \<open>The nested \<open>for\<close> loops of \<open>getBeautySecondSubCat\<close>: the first rule, in table
  order, one of whose keywords occurs in the title.\<close>

fun firstBeautyRule :: "BeautyRule list \<Rightarrow> jsstring \<Rightarrow> BeautyCatCode option" where
  "firstBeautyRule [] title = None"
| "firstBeautyRule (rule # rules) title =
     (if some_includes (br_keywords rule) title then Some (br_code rule)
      else firstBeautyRule rules title)"

definition getBeautySecondSubCat :: "jsstring \<Rightarrow> BeautyCatCode" where
  "getBeautySecondSubCat title =
     (case firstBeautyRule BEAUTY_RULES title of Some c \<Rightarrow> c | None \<Rightarrow> Cat_120000012)"

definition classifyQoo10Category :: "jsstring option \<Rightarrow> Qoo10CategoryDecision" where
  "classifyQoo10Category title =
     (let m = getMainCategoryCode title in
      if m = Main_120000
      then \<lparr>main = m,
            beautySecondSubCat =
              Some (getBeautySecondSubCat (case title of None \<Rightarrow> [] | Some t \<Rightarrow> t))\<rparr>
      else \<lparr>main = m, beautySecondSubCat = None\<rparr>)"

section \<open>Numbers\<close>

text \<open>
  Prices, counts and rule coefficients are JavaScript numbers, that is, IEEE 754 doubles.
  A finite double is a rational, and a number is modelled as a rational; a number that
  may be missing (\<open>undefined\<close>, \<open>null\<close> or \<open>NaN\<close>) is an \<open>option\<close>. Comparisons
  of doubles are exact. A product or a sum is the exact result rounded to the nearest
  double, a tie going to the double with the even significand: \<open>double_of\<close>. Results
  beyond the largest finite double, which are infinite in the program, are outside the
  model.
\<close>

type_synonym jsnumber = rat

text \<open>\<open>pow2 e\<close> is \<open>2\<close> to the power \<open>e\<close>, for an integer \<open>e\<close>.\<close>

definition pow2 :: "int \<Rightarrow> rat" where
  "pow2 e = (if 0 \<le> e then 2 ^ nat e else 1 / 2 ^ nat (- e))"

text \<open>The binary exponent of a number other than 0: the \<open>e\<close> with
  \<open>2^e \<le> |x| < 2^(e+1)\<close>.\<close>

definition exponent_of :: "rat \<Rightarrow> int" where
  "exponent_of x =
     (if 1 \<le> \<bar>x\<bar> then bitlen \<lfloor>\<bar>x\<bar>\<rfloor> - 1 else - bitlen (\<lceil>1 / \<bar>x\<bar>\<rceil> - 1))"

text \<open>The integer nearest to \<open>q\<close>, the even one of the two where \<open>q\<close> is half-way.\<close>

definition round_half_even :: "rat \<Rightarrow> int" where
  "round_half_even q =
     (let f = \<lfloor>q\<rfloor>; r = q - of_int f
      in if r < 1 / 2 then f
         else if 1 / 2 < r then f + 1
         else if even f then f else f + 1)"

text \<open>
  The double nearest to \<open>x\<close>. A double has a significand of 53 bits, so its last bit
  is worth \<open>2^(e - 52)\<close> for the exponent \<open>e\<close> of \<open>x\<close>, and \<open>2^(-1074)\<close> below
  the normal range, which starts at \<open>2^(-1022)\<close>. A decimal literal of the program,
  such as \<open>1.2\<close>, denotes the double nearest to it: \<open>double_of (12 / 10)\<close>.
\<close>

definition double_of :: "rat \<Rightarrow> jsnumber" where
  "double_of x =
     (if x = 0 then 0
      else
        let e = max (exponent_of x) (- 1022);
            u = pow2 (e - 52)
        in of_int (round_half_even (x / u)) * u)"

text \<open>\<open>a * b\<close> and \<open>a + b\<close> on doubles.\<close>

definition double_times :: "jsnumber \<Rightarrow> jsnumber \<Rightarrow> jsnumber" where
  "double_times a b = double_of (a * b)"

definition double_plus :: "jsnumber \<Rightarrow> jsnumber \<Rightarrow> jsnumber" where
  "double_plus a b = double_of (a + b)"

text \<open>\<open>Math.round\<close> gives the integer nearest to its argument, the greater of the two
  where the argument is half-way; the result is exact.\<close>

definition Math_round :: "jsnumber \<Rightarrow> jsnumber" where
  "Math_round x = of_int \<lfloor>x + 1 / 2\<rfloor>"

section \<open>Data model (App.tsx, api/qeasy.ts)\<close>

text \<open>
  Record fields share one name space, so a field \<open>f\<close> whose name occurs in several
  types of the program, or is taken already, carries a prefix for its type: \<open>ai_\<close>
  (AmazonItemInfo), \<open>lp_\<close> (Qoo10ListingPayload), \<open>cr_\<close> (CreateListingResult),
  \<open>p_\<close> (Product), \<open>r_\<close> (ListingResultItem), \<open>pr_\<close> (PriceRule), \<open>br_\<close>
  (BeautyRule). An optional field is an \<open>option\<close>.
\<close>

record AmazonItemInfo =
  ai_asin :: jsstring
  ai_price :: "jsnumber option"
  ai_sellerCount :: "jsnumber option"
  ai_title :: "jsstring option"
  ai_image :: "jsstring option"
  ai_isPrime :: "bool option"
  ai_shipDays :: "jsnumber option"

record Qoo10ListingPayload =
  lp_asin :: jsstring
  lp_price :: jsnumber
  lp_shippingCode :: jsstring
  lp_title :: jsstring
  lp_imageUrl :: "jsstring option"
  lp_stock :: "jsnumber option"
  lp_categoryNo :: "jsnumber option"
  lp_jan :: "jsstring option"

record CreateListingResult =
  cr_asin :: jsstring
  cr_ok :: bool
  cr_message :: "jsstring option"
  cr_code :: "jsstring option"
  cr_qoo10ItemCode :: "jsstring option"

record PriceRule =
  pr_min :: jsnumber
  pr_max :: "jsnumber option"
  pr_multiply :: jsnumber
  pr_plus :: jsnumber

record Product =
  p_id :: nat
  p_asin :: jsstring
  p_name :: jsstring
  p_jan :: "jsstring option"
  p_qoo10Id :: "jsstring option"
  p_mainImage :: jsstring
  p_amazonPrice :: jsnumber
  p_inStock :: "bool option"
  p_updatedAt :: jsstring

text \<open>
  \<open>categoryMap\<close> is an object used as a dictionary; the program reads it only through
  \<open>Object.entries\<close>, so it is modelled as the list of its entries in that order. The
  notification and template flags of the settings play no part in the functions below
  and are left out.
\<close>

record SettingsState =
  primeOnly :: bool
  primeShipDaysMax :: jsnumber
  maxStockPerItem :: jsnumber
  shippingCode :: jsstring
  rules :: "PriceRule list"
  noListASINs :: "jsstring list"
  noListWords :: "jsstring list"
  nameEraseWords :: "jsstring list"
  keepASINsOnDelete :: "jsstring list"
  categoryMap :: "(jsstring \<times> jsnumber) list"
  autoCategoryEnabled :: bool

datatype ListingStatus = Status_success | Status_exists | Status_forbidden | Status_error

text \<open>
  The messages of the program are fixed Japanese sentences, some with a value spliced
  in. A message is modelled by the place that builds it, with the spliced value.
\<close>

datatype message =
    Msg_priceUnavailable              \<comment> \<open>no Amazon price (availability check)\<close>
  | Msg_notPrime "jsnumber option"    \<comment> \<open>Prime condition, with \<open>info.shipDays\<close>\<close>
  | Msg_singleSeller "jsnumber option" \<comment> \<open>one seller only, with \<open>info.sellerCount\<close>\<close>
  | Msg_noListAsin                    \<comment> \<open>ASIN on the deny-list\<close>
  | Msg_noListWords "jsstring list"   \<comment> \<open>forbidden words, with \<open>hitWords\<close>\<close>
  | Msg_exists                        \<comment> \<open>already on Qoo10\<close>
  | Msg_priceInvalid                  \<comment> \<open>price after the rules is not positive\<close>
  | Msg_text jsstring                 \<comment> \<open>\<open>r.message\<close> of the listing API\<close>
  | Msg_created                       \<comment> \<open>default success message\<close>
  | Msg_apiErrorCode jsstring         \<comment> \<open>API error with \<open>r.code\<close>\<close>
  | Msg_apiError                      \<comment> \<open>API error without code\<close>

record ListingResultItem =
  r_asin :: jsstring
  r_name :: jsstring
  r_status :: ListingStatus
  r_message :: message
  r_hitWords :: "jsstring list option"
  r_qoo10ItemCode :: "jsstring option"

text \<open>The price rules of \<open>DEFAULT_SETTINGS\<close>; their coefficient is the literal
  \<open>1.2\<close>.\<close>

definition DEFAULT_rules :: "PriceRule list" where
  "DEFAULT_rules =
     [\<lparr>pr_min = 1, pr_max = Some 3000, pr_multiply = double_of (12 / 10), pr_plus = 400\<rparr>,
      \<lparr>pr_min = 3001, pr_max = Some 6000, pr_multiply = double_of (12 / 10), pr_plus = 500\<rparr>,
      \<lparr>pr_min = 6001, pr_max = None, pr_multiply = double_of (12 / 10), pr_plus = 600\<rparr>]"

section \<open>Price transformer\<close>

text \<open>The predicate given to \<open>rules.find\<close>.\<close>

definition ruleMatches :: "jsnumber \<Rightarrow> PriceRule \<Rightarrow> bool" where
  "ruleMatches price rr =
     (case pr_max rr of
        Some m \<Rightarrow> price \<ge> pr_min rr \<and> price \<le> m
      | None \<Rightarrow> price \<ge> pr_min rr)"

definition applyRule :: "jsnumber option \<Rightarrow> PriceRule list \<Rightarrow> jsnumber" where
  "applyRule price rs =
     (case price of
        None \<Rightarrow> 0
      | Some p \<Rightarrow>
          if p = 0 \<or> p \<le> 0 then 0
          else
            let r = find (ruleMatches p) rs;
                result =
                  (case r of
                     Some rr \<Rightarrow> double_plus (double_times p (pr_multiply rr)) (pr_plus rr)
                   | None \<Rightarrow> p)
            in max 1 (Math_round result))"

section \<open>String helpers of the host\<close>

text \<open>
  \<open>isWhiteSpace\<close> is the class \<open>\s\<close> of regular expressions, which is also what
  \<open>trim\<close> strips: the white space and line terminator code units of ECMAScript.
\<close>

definition isWhiteSpace :: "nat \<Rightarrow> bool" where
  "isWhiteSpace c =
     (c = 0x09 \<or> c = 0x0A \<or> c = 0x0B \<or> c = 0x0C \<or> c = 0x0D \<or> c = 0x20 \<or> c = 0xA0
      \<or> c = 0x1680 \<or> (0x2000 \<le> c \<and> c \<le> 0x200A) \<or> c = 0x2028 \<or> c = 0x2029
      \<or> c = 0x202F \<or> c = 0x205F \<or> c = 0x3000 \<or> c = 0xFEFF)"

definition trim :: "jsstring \<Rightarrow> jsstring" where
  "trim s = rev (dropWhile isWhiteSpace (rev (dropWhile isWhiteSpace s)))"

text \<open>
  \<open>toLowerCase\<close> and \<open>toUpperCase\<close> on the ASCII letters, the identity elsewhere.
  \<open>parseAsinCsv\<close> is the only function below that uses them: it compares a lower-cased
  cell with \<open>"asin"\<close>, which only a cell made of the ASCII letters a, s, i, n in either
  case lower-cases to, and upper-cases a cell that the pattern has already restricted to
  ASCII letters and digits.
\<close>

definition toLowerCase :: "jsstring \<Rightarrow> jsstring" where
  "toLowerCase s = map (\<lambda>c. if 0x41 \<le> c \<and> c \<le> 0x5A then c + 0x20 else c) s"

definition toUpperCase :: "jsstring \<Rightarrow> jsstring" where
  "toUpperCase s = map (\<lambda>c. if 0x61 \<le> c \<and> c \<le> 0x7A then c - 0x20 else c) s"

text \<open>\<open>s.split(re)\<close> for a pattern \<open>re\<close> that matches one code unit of a class.\<close>

fun splitOn :: "(nat \<Rightarrow> bool) \<Rightarrow> jsstring \<Rightarrow> jsstring list" where
  "splitOn sep [] = [[]]"
| "splitOn sep (c # cs) =
     (if sep c then [] # splitOn sep cs
      else (case splitOn sep cs of [] \<Rightarrow> [[c]] | l # ls \<Rightarrow> (c # l) # ls))"

text \<open>\<open>text.split(/\r?\n/)\<close>: a line ends at LF, or at CR immediately followed by LF.\<close>

fun splitLines :: "jsstring \<Rightarrow> jsstring list" where
  "splitLines [] = [[]]"
| "splitLines [c] = (if c = 0x0A then [[], []] else [[c]])"
| "splitLines (c # d # cs) =
     (if c = 0x0D \<and> d = 0x0A then [] # splitLines cs
      else if c = 0x0A then [] # splitLines (d # cs)
      else (case splitLines (d # cs) of [] \<Rightarrow> [[c]] | l # ls \<Rightarrow> (c # l) # ls))"

text \<open>\<open>/[,;\t]/\<close>.\<close>

definition isDelimiter :: "nat \<Rightarrow> bool" where
  "isDelimiter c = (c = 0x2C \<or> c = 0x3B \<or> c = 0x09)"

text \<open>\<open>c.replace(/^["']+|["']+$/g, "")\<close>: the leading run of quote characters goes, then
  the trailing run of what is left.\<close>

definition isQuote :: "nat \<Rightarrow> bool" where
  "isQuote c = (c = 0x22 \<or> c = 0x27)"

definition stripQuotes :: "jsstring \<Rightarrow> jsstring" where
  "stripQuotes s = rev (dropWhile isQuote (rev (dropWhile isQuote s)))"

text \<open>\<open>/^[A-Z0-9]{10}$/i.test(s)\<close>. Without the \<open>u\<close> flag, ignoring case never lets a
  code unit from \<open>0x80\<close> on match an ASCII letter.\<close>

definition isAlnum :: "nat \<Rightarrow> bool" where
  "isAlnum c = ((0x30 \<le> c \<and> c \<le> 0x39) \<or> (0x41 \<le> c \<and> c \<le> 0x5A) \<or> (0x61 \<le> c \<and> c \<le> 0x7A))"

definition isAsin :: "jsstring \<Rightarrow> bool" where
  "isAsin s = (length s = 10 \<and> list_all isAlnum s)"

text \<open>\<open>xs.indexOf(x)\<close>, with \<open>None\<close> for \<open>-1\<close>.\<close>

fun indexOf :: "'a list \<Rightarrow> 'a \<Rightarrow> nat option" where
  "indexOf [] x = None"
| "indexOf (y # ys) x = (if y = x then Some 0 else map_option Suc (indexOf ys x))"

text \<open>\<open>Array.from(new Set(xs))\<close>: a set keeps its elements in the order of their first
  insertion.\<close>

definition arrayFromSet :: "'a list \<Rightarrow> 'a list" where
  "arrayFromSet xs = foldl (\<lambda>acc x. if x \<in> set acc then acc else acc @ [x]) [] xs"

text \<open>\<open>t.split(w).join("")\<close> for a non-empty \<open>w\<close>: the occurrences of \<open>w\<close>, found from
  the left without overlap, are removed.\<close>

function removeOccurrences :: "jsstring \<Rightarrow> jsstring \<Rightarrow> jsstring" where
  "removeOccurrences w [] = []"
| "removeOccurrences w (c # cs) =
     (if w \<noteq> [] \<and> prefix w (c # cs) then removeOccurrences w (drop (length w) (c # cs))
      else c # removeOccurrences w cs)"
  by pat_completeness auto
termination
  by (relation "measure (\<lambda>(w, t). length t)") (auto simp: neq_Nil_conv)

text \<open>\<open>t.replace(/\s+/g, " ")\<close>.\<close>

function collapseSpaces :: "jsstring \<Rightarrow> jsstring" where
  "collapseSpaces [] = []"
| "collapseSpaces (c # cs) =
     (if isWhiteSpace c then 0x20 # collapseSpaces (dropWhile isWhiteSpace cs)
      else c # collapseSpaces cs)"
  by pat_completeness auto
termination
  by (relation "measure length") (auto simp: less_Suc_eq_le length_dropWhile_le)

section \<open>Utilities of App.tsx\<close>

definition stripWords :: "jsstring \<Rightarrow> jsstring list \<Rightarrow> jsstring" where
  "stripWords title words =
     trim (collapseSpaces
       (fold (\<lambda>w t. if w = [] then t else removeOccurrences w t) words title))"

subsection \<open>Identifier extraction\<close>

text \<open>The body of the \<open>for\<close> loop of \<open>parseAsinCsv\<close>: the identifier a row
  contributes, \<open>None\<close> where the loop continues without pushing.\<close>

definition parseAsinCsv_row :: "nat option \<Rightarrow> jsstring \<Rightarrow> jsstring option" where
  "parseAsinCsv_row asinIndex row =
     (if row = [] then None
      else
        let cells = splitOn isDelimiter row;
            idx = (case asinIndex of Some i \<Rightarrow> i | None \<Rightarrow> 0)
        in if idx \<ge> length cells then None
           else
             let raw = trim (cells ! idx);
                 cleaned = trim (stripQuotes raw)
             in if cleaned = [] then None
                else if isAsin cleaned then Some (toUpperCase cleaned)
                else None)"

definition parseAsinCsv :: "jsstring \<Rightarrow> jsstring list" where
  "parseAsinCsv text =
     (let rawLines = splitLines text
      in case filter (\<lambda>l. l \<noteq> []) (map trim rawLines) of
           [] \<Rightarrow> []
         | l0 # rest \<Rightarrow>
             let lines = (if hd l0 = 0xFEFF then drop 1 l0 else l0) # rest;
                 headerCells =
                   map (\<lambda>c. toLowerCase (trim (stripQuotes c))) (splitOn isDelimiter (hd lines));
                 asinIndex = indexOf headerCells (js ''asin'');
                 startRow = (if asinIndex \<noteq> None then 1 else 0);
                 asins = List.map_filter (parseAsinCsv_row asinIndex) (drop startRow lines)
             in arrayFromSet asins)"

text \<open>\<open>xs.join(sep)\<close>.\<close>

fun join_js :: "jsstring \<Rightarrow> jsstring list \<Rightarrow> jsstring" where
  "join_js sep [] = []"
| "join_js sep [x] = x"
| "join_js sep (x # y # ys) = x @ sep @ join_js sep (y # ys)"

text \<open>The invariant of an identifier in the specification, \<open>^[A-Z0-9]{10}$\<close>: ten code
  units, each an ASCII digit or upper-case letter.\<close>

definition isIdentifier :: "jsstring \<Rightarrow> bool" where
  "isIdentifier s =
     (length s = 10 \<and> list_all (\<lambda>c. (0x30 \<le> c \<and> c \<le> 0x39) \<or> (0x41 \<le> c \<and> c \<le> 0x5A)) s)"

section \<open>Category choice\<close>

text \<open>\<open>Number(code)\<close> of the category codes, which are strings of digits.\<close>

fun Number_main :: "MainCategoryCode \<Rightarrow> jsnumber" where
  "Number_main Main_120000 = 120000"
| "Number_main Main_130000 = 130000"
| "Number_main Main_120000033 = 120000033"
| "Number_main Main_100000018 = 100000018"

fun Number_beauty :: "BeautyCatCode \<Rightarrow> jsnumber" where
  "Number_beauty Cat_120000012 = 120000012"
| "Number_beauty Cat_120000013 = 120000013"
| "Number_beauty Cat_120000014 = 120000014"
| "Number_beauty Cat_120000017 = 120000017"
| "Number_beauty Cat_120000018 = 120000018"
| "Number_beauty Cat_120000020 = 120000020"
| "Number_beauty Cat_120000021 = 120000021"
| "Number_beauty Cat_120000022 = 120000022"

text \<open>
  The loop over \<open>Object.entries(settings.categoryMap)\<close>: \<open>Some cat\<close> where the loop
  returns \<open>cat\<close>, \<open>None\<close> where it runs to its end. The title and the keys are
  arbitrary text, so \<open>String.prototype.toLowerCase\<close> is a parameter, \<open>lower\<close>, here and
  in the functions that call this one.
\<close>

fun manualCategory ::
  "(jsstring \<Rightarrow> jsstring) \<Rightarrow> jsstring \<Rightarrow> (jsstring \<times> jsnumber) list \<Rightarrow> jsnumber option" where
  "manualCategory lower titleLower [] = None"
| "manualCategory lower titleLower ((key, cat) # entries) =
     (if key = [] then manualCategory lower titleLower entries
      else if includes_js titleLower (lower key) then Some cat
      else manualCategory lower titleLower entries)"

text \<open>\<open>info?.title || p.name || ""\<close>.\<close>

definition rawTitle_of :: "AmazonItemInfo option \<Rightarrow> Product \<Rightarrow> jsstring" where
  "rawTitle_of info p =
     (case (case info of None \<Rightarrow> None | Some i \<Rightarrow> ai_title i) of
        Some t \<Rightarrow> if t \<noteq> [] then t else p_name p
      | None \<Rightarrow> p_name p)"

definition chooseCategory ::
  "(jsstring \<Rightarrow> jsstring) \<Rightarrow> AmazonItemInfo option \<Rightarrow> Product \<Rightarrow> SettingsState
     \<Rightarrow> jsnumber option" where
  "chooseCategory lower info p settings =
     (let rawTitle = rawTitle_of info p;
          titleLower = lower rawTitle
      in case manualCategory lower titleLower (categoryMap settings) of
           Some cat \<Rightarrow> Some cat
         | None \<Rightarrow>
             if \<not> autoCategoryEnabled settings then None
             else
               let decision = classifyQoo10Category (Some rawTitle)
               in if main decision = Main_120000
                  then Some (Number_beauty
                         (case beautySecondSubCat decision of
                            Some sub \<Rightarrow> sub | None \<Rightarrow> Cat_120000012))
                  else Some (Number_main (main decision)))"

section \<open>Result aggregation\<close>

text \<open>
  \<open>ListingResultInline\<close> renders nothing for \<open>null\<close> or an empty list; otherwise it
  renders four lists, each under its heading. The model returns the four lists.
\<close>

record Buckets =
  b_exists :: "ListingResultItem list"
  b_forbidden :: "ListingResultItem list"
  b_error :: "ListingResultItem list"
  b_success :: "ListingResultItem list"

definition ListingResultInline :: "ListingResultItem list option \<Rightarrow> Buckets option" where
  "ListingResultInline results =
     (case results of
        None \<Rightarrow> None
      | Some rs \<Rightarrow>
          if length rs = 0 then None
          else Some
            \<lparr>b_exists = filter (\<lambda>r. r_status r = Status_exists) rs,
             b_forbidden = filter (\<lambda>r. r_status r = Status_forbidden) rs,
             b_error = filter (\<lambda>r. r_status r = Status_error) rs,
             b_success = filter (\<lambda>r. r_status r = Status_success) rs\<rparr>)"

section \<open>Eligibility pipeline\<close>

text \<open>\<open>amazonInfos.forEach((i) => i.asin && infoMap.set(i.asin, i))\<close>.\<close>

definition infoMap_of :: "AmazonItemInfo list \<Rightarrow> (jsstring \<rightharpoonup> AmazonItemInfo)" where
  "infoMap_of amazonInfos =
     fold (\<lambda>i m. if ai_asin i \<noteq> [] then m(ai_asin i \<mapsto> i) else m) amazonInfos Map.empty"

text \<open>The outcome pushed to \<open>results\<close> for a target that a check stops, and the
  test \<open>!x\<close> on a number that may be missing, negated.\<close>

definition outcome ::
  "Product \<Rightarrow> ListingStatus \<Rightarrow> message \<Rightarrow> jsstring list option \<Rightarrow> ListingResultItem" where
  "outcome p st msg hw =
     \<lparr>r_asin = p_asin p, r_name = p_name p, r_status = st, r_message = msg,
      r_hitWords = hw, r_qoo10ItemCode = None\<rparr>"

definition truthy_number :: "jsnumber option \<Rightarrow> bool" where
  "truthy_number x = (case x of None \<Rightarrow> False | Some v \<Rightarrow> v \<noteq> 0)"

text \<open>The conditions of the Prime check and of the seller-count check, and the
  \<open>hitWords\<close> of the word deny-list.\<close>

definition primeRejected :: "SettingsState \<Rightarrow> AmazonItemInfo \<Rightarrow> bool" where
  "primeRejected settings info =
     (primeOnly settings \<and>
      (ai_isPrime info = Some False \<or>
       (case ai_shipDays info of
          None \<Rightarrow> False | Some d \<Rightarrow> d > primeShipDaysMax settings)))"

definition sellerRejected :: "AmazonItemInfo \<Rightarrow> bool" where
  "sellerRejected info =
     (case ai_sellerCount info of None \<Rightarrow> False | Some n \<Rightarrow> n \<le> 1)"

definition hitWords_of :: "SettingsState \<Rightarrow> Product \<Rightarrow> jsstring list" where
  "hitWords_of settings p =
     filter (\<lambda>w. w \<noteq> [] \<and> includes_js (p_name p) w) (noListWords settings)"

text \<open>
  The body of the loop over the targets in \<open>runListing\<close>: \<open>Inl\<close> an outcome pushed to
  \<open>results\<close> (the iteration ends with \<open>continue\<close>), \<open>Inr\<close> a payload pushed to
  \<open>payloads\<close>. \<open>existingAsins\<close> is the list behind \<open>existsSet\<close>.
\<close>

definition runListing_target ::
  "(jsstring \<Rightarrow> jsstring) \<Rightarrow> SettingsState \<Rightarrow> (jsstring \<rightharpoonup> AmazonItemInfo) \<Rightarrow> jsstring list
     \<Rightarrow> Product \<Rightarrow> ListingResultItem + Qoo10ListingPayload" where
  "runListing_target lower settings infoMap existingAsins p =
     (case infoMap (p_asin p) of
        None \<Rightarrow> Inl (outcome p Status_error Msg_priceUnavailable None)
      | Some info \<Rightarrow>
          if \<not> truthy_number (ai_price info)
          then Inl (outcome p Status_error Msg_priceUnavailable None)
          else if primeRejected settings info
          then Inl (outcome p Status_forbidden (Msg_notPrime (ai_shipDays info)) None)
          else if sellerRejected info
          then Inl (outcome p Status_forbidden (Msg_singleSeller (ai_sellerCount info)) None)
          else if p_asin p \<in> set (noListASINs settings)
          then Inl (outcome p Status_forbidden Msg_noListAsin None)
          else
            let hitWords = hitWords_of settings p
            in if length hitWords \<noteq> 0
               then Inl (outcome p Status_forbidden (Msg_noListWords hitWords) (Some hitWords))
               else if p_asin p \<in> set existingAsins
               then Inl (outcome p Status_exists Msg_exists None)
               else
                 let title = stripWords (rawTitle_of (Some info) p) (nameEraseWords settings);
                     price = applyRule (ai_price info) (rules settings)
                 in if price = 0 \<or> price \<le> 0
                    then Inl (outcome p Status_error Msg_priceInvalid None)
                    else
                      let categoryNo = chooseCategory lower (Some info) p settings;
                          stock = (if maxStockPerItem settings > 0
                                   then maxStockPerItem settings else 1)
                      in Inr \<lparr>lp_asin = p_asin p, lp_price = price,
                              lp_shippingCode = shippingCode settings, lp_title = title,
                              lp_imageUrl = ai_image info, lp_stock = Some stock,
                              lp_categoryNo = categoryNo, lp_jan = p_jan p\<rparr>)"

text \<open>The loop: \<open>results\<close> and \<open>payloads\<close>, each in the order of the targets.\<close>

fun runListing_loop ::
  "(jsstring \<Rightarrow> jsstring) \<Rightarrow> SettingsState \<Rightarrow> (jsstring \<rightharpoonup> AmazonItemInfo) \<Rightarrow> jsstring list
     \<Rightarrow> Product list \<Rightarrow> ListingResultItem list \<times> Qoo10ListingPayload list" where
  "runListing_loop lower settings infoMap existingAsins [] = ([], [])"
| "runListing_loop lower settings infoMap existingAsins (p # targets) =
     (let (results, payloads) = runListing_loop lower settings infoMap existingAsins targets
      in case runListing_target lower settings infoMap existingAsins p of
           Inl r \<Rightarrow> (r # results, payloads)
         | Inr pl \<Rightarrow> (results, pl # payloads))"

text \<open>The outcome pushed for one answer of the listing API.\<close>

definition created_outcome :: "Product list \<Rightarrow> CreateListingResult \<Rightarrow> ListingResultItem" where
  "created_outcome targets r =
     (let baseName =
            (case find (\<lambda>p. p_asin p = cr_asin r) targets of
               Some p \<Rightarrow> if p_name p \<noteq> [] then p_name p else cr_asin r
             | None \<Rightarrow> cr_asin r);
          message_or =
            (\<lambda>dflt. case cr_message r of
                      Some m \<Rightarrow> if m \<noteq> [] then Msg_text m else dflt
                    | None \<Rightarrow> dflt)
      in if cr_ok r
         then \<lparr>r_asin = cr_asin r, r_name = baseName, r_status = Status_success,
               r_message = message_or Msg_created,
               r_hitWords = None, r_qoo10ItemCode = cr_qoo10ItemCode r\<rparr>
         else \<lparr>r_asin = cr_asin r, r_name = baseName, r_status = Status_error,
               r_message =
                 message_or
                   (case cr_code r of
                      Some c \<Rightarrow> if c \<noteq> [] then Msg_apiErrorCode c else Msg_apiError
                    | None \<Rightarrow> Msg_apiError),
               r_hitWords = None, r_qoo10ItemCode = None\<rparr>)"

text \<open>
  \<open>runListing\<close> from the targets on. \<open>amazonInfos\<close> and \<open>existingAsins\<close> are what
  \<open>fetchAmazonBulk\<close> and \<open>checkQoo10Existing\<close> resolved to, \<open>create\<close> is what
  \<open>createQoo10Listings\<close> resolves to for the payloads it is given; the result is the
  list passed to \<open>setListingResults\<close>.
\<close>

definition runListing ::
  "(jsstring \<Rightarrow> jsstring) \<Rightarrow> SettingsState \<Rightarrow> Product list \<Rightarrow> AmazonItemInfo list
     \<Rightarrow> jsstring list \<Rightarrow> (Qoo10ListingPayload list \<Rightarrow> CreateListingResult list)
     \<Rightarrow> ListingResultItem list" where
  "runListing lower settings targets amazonInfos existingAsins create =
     (if length targets = 0 then []
      else
        let (results, payloads) =
              runListing_loop lower settings (infoMap_of amazonInfos) existingAsins targets
        in if length payloads = 0 then results
           else results @ map (created_outcome targets) (create payloads))"

section \<open>Wrappers of the Qeasy API (api/qeasy.ts)\<close>

text \<open>
  What a call of \<open>fetch\<close> may do is an input of the model: it fails (the promise
  rejects: the server is unreachable, the request cannot be built), or it answers with a
  status and a body whose decoding as JSON fails or gives a value. A promise is modelled
  by what it settles to: \<open>Inl\<close> a rejection, \<open>Inr\<close> the value it resolves to.
\<close>

datatype failure =
    Fetch_failed        \<comment> \<open>\<open>fetch\<close> rejects\<close>
  | Http_error nat      \<comment> \<open>the \<open>Error\<close> thrown for a response that is not \<open>ok\<close>\<close>
  | Json_failed         \<comment> \<open>\<open>res.json()\<close> rejects\<close>

record 'a Response =
  res_ok :: bool
  res_status :: nat
  res_json :: "failure + 'a"

definition postJson :: "failure + 'a Response \<Rightarrow> failure + 'a" where
  "postJson fetched =
     (case fetched of
        Inl e \<Rightarrow> Inl e
      | Inr res \<Rightarrow> if \<not> res_ok res then Inl (Http_error (res_status res)) else res_json res)"

text \<open>
  Each wrapper takes the server as a function from the request body to what \<open>fetch\<close>
  does for it.
\<close>

definition fetchAmazonBulk ::
  "(jsstring list \<Rightarrow> failure + AmazonItemInfo list Response) \<Rightarrow> jsstring list
     \<Rightarrow> failure + AmazonItemInfo list" where
  "fetchAmazonBulk server asins =
     (if length asins = 0 then Inr []
      else (case postJson (server asins) of Inr v \<Rightarrow> Inr v | Inl e \<Rightarrow> Inr []))"

definition checkQoo10Existing ::
  "(jsstring list \<Rightarrow> failure + jsstring list Response) \<Rightarrow> jsstring list
     \<Rightarrow> failure + jsstring list" where
  "checkQoo10Existing server asins =
     (if length asins = 0 then Inr []
      else (case postJson (server asins) of Inr v \<Rightarrow> Inr v | Inl e \<Rightarrow> Inr []))"

text \<open>The message of the results made up when the call fails.\<close>

definition CREATE_FAILED_MESSAGE :: jsstring where
  "CREATE_FAILED_MESSAGE =
     [0x51FA, 0x54C1, 0x0041, 0x0050, 0x0049, 0x547C, 0x3073, 0x51FA,
      0x3057, 0x306B, 0x5931, 0x6557, 0x3057, 0x307E, 0x3057, 0x305F,
      0x3002, 0xFF08, 0x30B5, 0x30FC, 0x30D0, 0x672A, 0x63A5, 0x7D9A,
      0x306E, 0x53EF, 0x80FD, 0x6027, 0xFF09]"

definition createQoo10Listings ::
  "(Qoo10ListingPayload list \<Rightarrow> failure + CreateListingResult list Response)
     \<Rightarrow> Qoo10ListingPayload list \<Rightarrow> failure + CreateListingResult list" where
  "createQoo10Listings server items =
     (if length items = 0 then Inr []
      else (case postJson (server items) of
              Inr v \<Rightarrow> Inr v
            | Inl e \<Rightarrow>
                Inr (map (\<lambda>it. \<lparr>cr_asin = lp_asin it, cr_ok = False,
                                  cr_message = Some CREATE_FAILED_MESSAGE, cr_code = None,
                                  cr_qoo10ItemCode = None\<rparr>) items)))"

section \<open>Default settings and sample data\<close>

text \<open>
  \<open>DEFAULT_SETTINGS\<close> of App.tsx, with \<open>DEFAULT_rules\<close> for its price rules. The
  name-erase words are \<open>"Amazon.co.jp"\<close>, a space and U+9650 U+5B9A, and U+767A U+9001;
  the keys of the category map are U+30D8 U+30CA (henna), U+30B7 U+30E3 U+30F3 U+30D7
  U+30FC (shampoo) and U+30B5 U+30D7 U+30EA (supplement).
\<close>

definition DEFAULT_SETTINGS :: SettingsState where
  "DEFAULT_SETTINGS =
     \<lparr>primeOnly = True, primeShipDaysMax = 3, maxStockPerItem = 2,
      shippingCode = js ''645035'',
      rules = DEFAULT_rules,
      noListASINs = [], noListWords = [],
      nameEraseWords =
        [js ''Amazon.co.jp '' @ [0x9650, 0x5B9A], [0x767A, 0x9001]],
      keepASINsOnDelete = [],
      categoryMap =
        [([0x30D8, 0x30CA], 120000),
         ([0x30B7, 0x30E3, 0x30F3, 0x30D7, 0x30FC], 120000),
         ([0x30B5, 0x30D7, 0x30EA], 130000)],
      autoCategoryEnabled = True\<rparr>"

text \<open>
  The candidate of the end-to-end scenario of the specification, with an identifier of
  ten characters: price 2500, Prime, five sellers, and the title U+65E5 U+713C U+3051
  U+6B62 U+3081 (sunscreen) followed by \<open>" 50ml"\<close>.
\<close>

definition sample_title :: jsstring where
  "sample_title = [0x65E5, 0x713C, 0x3051, 0x6B62, 0x3081] @ js '' 50ml''"

definition sample_product :: Product where
  "sample_product =
     \<lparr>p_id = 1, p_asin = js ''B00TEST001'', p_name = sample_title, p_jan = None,
      p_qoo10Id = None, p_mainImage = js ''image.png'', p_amazonPrice = 2500,
      p_inStock = Some True, p_updatedAt = js ''2025-01-01 00:00:00''\<rparr>"

definition sample_info :: AmazonItemInfo where
  "sample_info =
     \<lparr>ai_asin = js ''B00TEST001'', ai_price = Some 2500, ai_sellerCount = Some 5,
      ai_title = Some sample_title, ai_image = None, ai_isPrime = Some True,
      ai_shipDays = None\<rparr>"

section \<open>Properties of the category classifier\<close>

lemmas keyword_tables =
  SUPPLEMENT_KEYWORDS_def BEAUTY_APPLIANCE_KEYWORDS_def RAZOR_KEYWORDS_def
  ELECTRIC_HINTS_def DAILY_RAZOR_HINTS_def

lemma includes_js_sublist: "includes_js s w = sublist w s"
  by (induction s) (auto simp: sublist_Cons_right)

text \<open>
  Claim C5. A title that contains a supplement keyword and a razor keyword is classified
  as supplement (\<open>130000\<close>), with no beauty sub-category: the supplement test comes first
  in \<open>getMainCategoryCode\<close> and the first test that holds decides.
\<close>

theorem supplement_precedes_razor:
  "some_includes SUPPLEMENT_KEYWORDS title \<and> some_includes RAZOR_KEYWORDS title \<Longrightarrow>
   getMainCategoryCode (Some title) = Main_130000 \<and>
   classifyQoo10Category (Some title) = \<lparr>main = Main_130000, beautySecondSubCat = None\<rparr>"
  by (simp add: getMainCategoryCode_def classifyQoo10Category_def isSupplement_def)

text \<open>The witness is the title made of the supplement keyword U+30B5 U+30D7 U+30EA, a
  space and the razor keyword U+30AB U+30DF U+30BD U+30EA.\<close>

theorem supplement_precedes_razor_witness:
  "some_includes SUPPLEMENT_KEYWORDS
     [0x30B5, 0x30D7, 0x30EA, 0x0020, 0x30AB, 0x30DF, 0x30BD, 0x30EA] \<and>
   some_includes RAZOR_KEYWORDS
     [0x30B5, 0x30D7, 0x30EA, 0x0020, 0x30AB, 0x30DF, 0x30BD, 0x30EA] \<and>
   getMainCategoryCode (Some [0x30B5, 0x30D7, 0x30EA, 0x0020, 0x30AB, 0x30DF, 0x30BD, 0x30EA])
     = Main_130000"
proof -
  have h:
    "some_includes SUPPLEMENT_KEYWORDS
       [0x30B5, 0x30D7, 0x30EA, 0x0020, 0x30AB, 0x30DF, 0x30BD, 0x30EA] \<and>
     some_includes RAZOR_KEYWORDS
       [0x30B5, 0x30D7, 0x30EA, 0x0020, 0x30AB, 0x30DF, 0x30BD, 0x30EA]"
    by (simp add: some_includes_def SUPPLEMENT_KEYWORDS_def RAZOR_KEYWORDS_def)
  from supplement_precedes_razor [OF h] h show ?thesis by simp
qed

text \<open>
  In \<open>getMainCategoryCode\<close> the appliance test comes before the razor test, and a razor
  keyword with an electric hint already makes a title an appliance: such a title is never
  classified as daily goods, whatever else it contains. The last \<open>return true\<close> of
  \<open>isDailyRazor\<close>, for an electric hint together with a blade hint, is never reached
  from \<open>getMainCategoryCode\<close>.
\<close>

lemma razor_with_electric_hint_not_daily:
  "some_includes RAZOR_KEYWORDS title \<Longrightarrow> some_includes ELECTRIC_HINTS title \<Longrightarrow>
   getMainCategoryCode (Some title) \<noteq> Main_100000018"
  by (simp add: getMainCategoryCode_def isBeautyAppliance_def)

text \<open>
  Claim C1 says that a title with a razor keyword, an electric hint and a disposable-blade
  hint is classified as daily goods (\<open>100000018\<close>). The title below, an electric shaver
  (U+96FB U+52D5, then U+30B7 U+30A7 U+30FC U+30D0 U+30FC) with a replacement blade
  (U+66FF U+5203), has all three and \<open>isDailyRazor\<close> holds of it, yet the classifier
  answers appliance (\<open>120000033\<close>).
\<close>

theorem electric_razor_blade_classified_appliance:
  "some_includes RAZOR_KEYWORDS
     [0x96FB, 0x52D5, 0x30B7, 0x30A7, 0x30FC, 0x30D0, 0x30FC, 0x0020, 0x66FF, 0x5203] \<and>
   some_includes ELECTRIC_HINTS
     [0x96FB, 0x52D5, 0x30B7, 0x30A7, 0x30FC, 0x30D0, 0x30FC, 0x0020, 0x66FF, 0x5203] \<and>
   some_includes DAILY_RAZOR_HINTS
     [0x96FB, 0x52D5, 0x30B7, 0x30A7, 0x30FC, 0x30D0, 0x30FC, 0x0020, 0x66FF, 0x5203] \<and>
   isDailyRazor
     [0x96FB, 0x52D5, 0x30B7, 0x30A7, 0x30FC, 0x30D0, 0x30FC, 0x0020, 0x66FF, 0x5203] \<and>
   getMainCategoryCode
     (Some [0x96FB, 0x52D5, 0x30B7, 0x30A7, 0x30FC, 0x30D0, 0x30FC, 0x0020, 0x66FF, 0x5203])
     = Main_120000033 \<and>
   main (classifyQoo10Category
     (Some [0x96FB, 0x52D5, 0x30B7, 0x30A7, 0x30FC, 0x30D0, 0x30FC, 0x0020, 0x66FF, 0x5203]))
     = Main_120000033"
  by (simp add: some_includes_def keyword_tables isDailyRazor_def getMainCategoryCode_def
      classifyQoo10Category_def isSupplement_def isBeautyAppliance_def)

section \<open>Properties of the price transformer\<close>

subsection \<open>Rounding to a double\<close>

text \<open>
  \<open>exponent_of\<close> is the binary exponent, \<open>round_half_even\<close> is within one half of its
  argument, and so \<open>double_of x\<close> is within half a unit in the last place of \<open>x\<close>.
\<close>

lemma pow2_pos: "0 < pow2 e"
  by (simp add: pow2_def)

lemma pow2_nonneg: "0 \<le> e \<Longrightarrow> pow2 e = 2 ^ nat e"
  by (simp add: pow2_def)

lemma pow2_nonpos: "e \<le> 0 \<Longrightarrow> pow2 e = 1 / 2 ^ nat (- e)"
  by (simp add: pow2_def)

lemma round_half_even_near: "\<bar>of_int (round_half_even q) - q\<bar> \<le> 1 / 2"
proof -
  have "of_int \<lfloor>q\<rfloor> \<le> q" and "q < of_int \<lfloor>q\<rfloor> + 1"
    by linarith+
  then show ?thesis
    by (auto simp: round_half_even_def Let_def abs_le_iff)
qed

lemma bitlen_pos: "0 < m \<Longrightarrow> 1 \<le> bitlen m"
  using bitlen_eq_zero_iff [of m] bitlen_nonneg [of m] by linarith

lemma exponent_large:
  assumes "1 \<le> \<bar>x\<bar>"
  shows "pow2 (exponent_of x) \<le> \<bar>x\<bar> \<and> \<bar>x\<bar> < pow2 (exponent_of x + 1)"
proof -
  let ?m = "\<lfloor>\<bar>x\<bar>\<rfloor>"
  from assms have m: "0 < ?m"
    by linarith
  then have b: "1 \<le> bitlen ?m"
    by (rule bitlen_pos)
  from m have bb: "2 ^ nat (bitlen ?m - 1) \<le> ?m \<and> ?m < 2 ^ nat (bitlen ?m)"
    by (rule bitlen_bounds)
  have "(2 :: rat) ^ nat (bitlen ?m - 1) = of_int (2 ^ nat (bitlen ?m - 1))"
    by simp
  also from bb have "\<dots> \<le> of_int ?m"
    by (simp only: of_int_le_iff)
  also have "\<dots> \<le> \<bar>x\<bar>"
    by (rule of_int_floor_le)
  finally have lo: "(2 :: rat) ^ nat (bitlen ?m - 1) \<le> \<bar>x\<bar>" .
  from bb have "?m + 1 \<le> 2 ^ nat (bitlen ?m)"
    by simp
  then have "(of_int (?m + 1) :: rat) \<le> of_int (2 ^ nat (bitlen ?m))"
    by (simp only: of_int_le_iff)
  moreover have "\<bar>x\<bar> < of_int (?m + 1)"
    by simp linarith
  ultimately have "\<bar>x\<bar> < of_int (2 ^ nat (bitlen ?m))"
    by (rule less_le_trans [rotated])
  then have hi: "\<bar>x\<bar> < (2 :: rat) ^ nat (bitlen ?m)"
    by simp
  from assms have e: "exponent_of x = bitlen ?m - 1"
    by (simp add: exponent_of_def)
  from b lo hi show ?thesis
    by (simp add: e pow2_nonneg)
qed

lemma exponent_small:
  assumes "x \<noteq> 0" and "\<bar>x\<bar> < 1"
  shows "pow2 (exponent_of x) \<le> \<bar>x\<bar> \<and> \<bar>x\<bar> < pow2 (exponent_of x + 1)"
proof -
  let ?y = "1 / \<bar>x\<bar>"
  let ?c = "\<lceil>?y\<rceil> - 1"
  let ?k = "bitlen ?c"
  from assms have x: "0 < \<bar>x\<bar>"
    by simp
  with assms have y: "1 < ?y"
    by simp
  then have c: "0 < ?c"
    by linarith
  then have k: "1 \<le> ?k"
    by (rule bitlen_pos)
  from c have bb: "2 ^ nat (?k - 1) \<le> ?c \<and> ?c < 2 ^ nat ?k"
    by (rule bitlen_bounds)
  have cy: "(of_int ?c :: rat) < ?y"
    using ceiling_correct [of ?y] by simp
  have yc: "?y \<le> of_int (?c + 1)"
    by (simp only: diff_add_cancel le_of_int_ceiling)
  have "(2 :: rat) ^ nat (?k - 1) = of_int (2 ^ nat (?k - 1))"
    by simp
  also from bb have "\<dots> \<le> of_int ?c"
    by (simp only: of_int_le_iff)
  also note cy
  finally have lo: "(2 :: rat) ^ nat (?k - 1) < ?y" .
  from bb have "?c + 1 \<le> 2 ^ nat ?k"
    by simp
  then have "(of_int (?c + 1) :: rat) \<le> of_int (2 ^ nat ?k)"
    by (simp only: of_int_le_iff)
  with yc have "?y \<le> of_int (2 ^ nat ?k)"
    by (rule order_trans)
  then have hi: "?y \<le> (2 :: rat) ^ nat ?k"
    by simp
  from assms have e: "exponent_of x = - ?k"
    by (simp add: exponent_of_def)
  from hi x have a: "1 / 2 ^ nat ?k \<le> \<bar>x\<bar>"
    by (simp add: field_simps)
  from lo x have b: "\<bar>x\<bar> < 1 / 2 ^ nat (?k - 1)"
    by (simp add: field_simps)
  from k have "pow2 (- ?k) = 1 / 2 ^ nat ?k" and "pow2 (- ?k + 1) = 1 / 2 ^ nat (?k - 1)"
    by (simp_all add: pow2_nonpos)
  with a b e show ?thesis
    by simp
qed

lemma exponent_of_bounds:
  "x \<noteq> 0 \<Longrightarrow> pow2 (exponent_of x) \<le> \<bar>x\<bar> \<and> \<bar>x\<bar> < pow2 (exponent_of x + 1)"
  using exponent_large [of x] exponent_small [of x] by linarith

lemma double_of_near:
  "x \<noteq> 0 \<Longrightarrow> \<bar>double_of x - x\<bar> \<le> pow2 (max (exponent_of x) (- 1022) - 52) / 2"
proof -
  assume "x \<noteq> 0"
  let ?u = "pow2 (max (exponent_of x) (- 1022) - 52)"
  let ?n = "of_int (round_half_even (x / ?u)) :: rat"
  have u: "0 < ?u"
    by (rule pow2_pos)
  have "\<bar>?n - x / ?u\<bar> \<le> 1 / 2"
    by (rule round_half_even_near)
  with u have "\<bar>?n - x / ?u\<bar> * ?u \<le> 1 / 2 * ?u"
    by (simp only: mult_le_cancel_right_pos)
  moreover from u have "\<bar>?n - x / ?u\<bar> * ?u = \<bar>(?n - x / ?u) * ?u\<bar>"
    by (simp add: abs_mult)
  moreover from u have "(?n - x / ?u) * ?u = ?n * ?u - x"
    by (simp add: left_diff_distrib)
  ultimately have "\<bar>?n * ?u - x\<bar> \<le> ?u / 2"
    by simp
  with \<open>x \<noteq> 0\<close> show ?thesis
    by (simp add: double_of_def Let_def)
qed

text \<open>
  Known doubles: the literals \<open>0.1\<close> and \<open>1.2\<close>, the sum \<open>0.1 + 0.2\<close>, which is
  \<open>0.30000000000000004\<close> and not the double \<open>0.3\<close>, and the product \<open>3000 * 1.2\<close>,
  which is 3600.
\<close>

lemma double_of_samples:
  "double_of (1 / 10) = 3602879701896397 / 36028797018963968"
  "double_of (12 / 10) = 5404319552844595 / 4503599627370496"
  "double_plus (double_of (1 / 10)) (double_of (2 / 10)) = 1351079888211149 / 4503599627370496"
  "double_of (3 / 10) = 5404319552844595 / 18014398509481984"
  "double_times 3000 (double_of (12 / 10)) = 3600"
  by code_simp+

subsection \<open>The transformer\<close>








section \<open>Properties of the eligibility pipeline\<close>

lemmas sample_data =
  DEFAULT_SETTINGS_def sample_title_def sample_product_def sample_info_def js_def

lemmas pipeline_checks =
  truthy_number_def primeRejected_def sellerRejected_def hitWords_of_def

lemmas classifier_defs =
  chooseCategory_def rawTitle_of_def classifyQoo10Category_def getMainCategoryCode_def
  isSupplement_def isBeautyAppliance_def isDailyRazor_def some_includes_def keyword_tables
  getBeautySecondSubCat_def BEAUTY_RULES_def

text \<open>The price of the sample candidate under the default rules.\<close>

lemma sample_price: "applyRule (Some 2500) DEFAULT_rules = 3400"
  by code_simp

lemmas payload_defs =
  sample_price stripWords_def trim_def isWhiteSpace_def toLowerCase_def classifier_defs

text \<open>An outcome that the loop body gives for a target is in the list that
  \<open>runListing\<close> reports.\<close>

lemma loop_keeps_outcome:
  "p \<in> set targets \<Longrightarrow> runListing_target lower settings infoMap ex p = Inl r \<Longrightarrow>
   r \<in> set (fst (runListing_loop lower settings infoMap ex targets))"
  by (induction targets) (auto split: prod.splits sum.splits)

lemma target_outcome_reported:
  assumes "p \<in> set targets"
    and "runListing_target lower settings (infoMap_of amazonInfos) ex p = Inl r"
  shows "r \<in> set (runListing lower settings targets amazonInfos ex create)"
proof -
  obtain results payloads where
    lp: "runListing_loop lower settings (infoMap_of amazonInfos) ex targets = (results, payloads)"
    by (cases "runListing_loop lower settings (infoMap_of amazonInfos) ex targets")
  from assms have "r \<in> set (fst (runListing_loop lower settings (infoMap_of amazonInfos) ex targets))"
    by (rule loop_keeps_outcome)
  with lp have r: "r \<in> set results"
    by simp
  from assms(1) have "targets \<noteq> []"
    by auto
  with lp r show ?thesis
    by (simp add: runListing_def)
qed

text \<open>The end-to-end scenario of the specification: the sample candidate passes every
  check and its payload has price 3400 and the UV-care category.\<close>

lemma sample_payload:
  "runListing_target toLowerCase DEFAULT_SETTINGS (infoMap_of [sample_info]) [] sample_product
     = Inr \<lparr>lp_asin = js ''B00TEST001'', lp_price = 3400, lp_shippingCode = js ''645035'',
            lp_title = sample_title, lp_imageUrl = None, lp_stock = Some 2,
            lp_categoryNo = Some 120000017, lp_jan = None\<rparr>"
  by (simp add: runListing_target_def infoMap_of_def sample_data pipeline_checks payload_defs)

text \<open>
  Claim C3. A candidate that passes the availability check and the Prime check and whose
  seller count is known and at most 1 gets a forbidden outcome, the one of the
  seller-count rule, under every settings value; \<open>runListing\<close> reports it. A candidate
  whose seller count is unknown never gets the outcome of that rule.
\<close>

theorem single_seller_forbidden:
  "(\<forall>lower (settings :: SettingsState) targets amazonInfos existingAsins create
       (p :: Product) (info :: AmazonItemInfo) n.
      p \<in> set targets \<and> infoMap_of amazonInfos (p_asin p) = Some info \<and>
      truthy_number (ai_price info) \<and> \<not> primeRejected settings info \<and>
      ai_sellerCount info = Some n \<and> n \<le> 1 \<longrightarrow>
      runListing_target lower settings (infoMap_of amazonInfos) existingAsins p
        = Inl (outcome p Status_forbidden (Msg_singleSeller (Some n)) None) \<and>
      outcome p Status_forbidden (Msg_singleSeller (Some n)) None
        \<in> set (runListing lower settings targets amazonInfos existingAsins create)) \<and>
   (\<forall>lower (settings :: SettingsState) infoMap existingAsins (p :: Product)
       (info :: AmazonItemInfo) (r :: ListingResultItem) x.
      infoMap (p_asin p) = Some info \<and> ai_sellerCount info = None \<and>
      runListing_target lower settings infoMap existingAsins p = Inl r \<longrightarrow>
      r_message r \<noteq> Msg_singleSeller x)"
proof (intro conjI allI impI)
  fix lower and settings :: SettingsState and targets amazonInfos existingAsins
    and p :: Product and info :: AmazonItemInfo and n :: rat
  assume h: "p \<in> set targets \<and> infoMap_of amazonInfos (p_asin p) = Some info \<and>
      truthy_number (ai_price info) \<and> \<not> primeRejected settings info \<and>
      ai_sellerCount info = Some n \<and> n \<le> 1"
  then show "runListing_target lower settings (infoMap_of amazonInfos) existingAsins p
        = Inl (outcome p Status_forbidden (Msg_singleSeller (Some n)) None)"
    by (simp add: runListing_target_def sellerRejected_def)
next
  fix lower and settings :: SettingsState and targets amazonInfos existingAsins
    and p :: Product and info :: AmazonItemInfo and n :: rat
    and create :: "Qoo10ListingPayload list \<Rightarrow> CreateListingResult list"
  assume h: "p \<in> set targets \<and> infoMap_of amazonInfos (p_asin p) = Some info \<and>
      truthy_number (ai_price info) \<and> \<not> primeRejected settings info \<and>
      ai_sellerCount info = Some n \<and> n \<le> 1"
  then have "runListing_target lower settings (infoMap_of amazonInfos) existingAsins p
        = Inl (outcome p Status_forbidden (Msg_singleSeller (Some n)) None)"
    by (simp add: runListing_target_def sellerRejected_def)
  with h show "outcome p Status_forbidden (Msg_singleSeller (Some n)) None
        \<in> set (runListing lower settings targets amazonInfos existingAsins create)"
    by (blast intro: target_outcome_reported)
next
  fix lower and settings :: SettingsState and infoMap existingAsins and p :: Product
    and info :: AmazonItemInfo and r :: ListingResultItem and x
  assume "infoMap (p_asin p) = Some info \<and> ai_sellerCount info = None \<and>
      runListing_target lower settings infoMap existingAsins p = Inl r"
  then show "r_message r \<noteq> Msg_singleSeller x"
    by (auto simp: runListing_target_def sellerRejected_def outcome_def Let_def
        split: if_splits)
qed

text \<open>The witness: the sample candidate with one seller, under the default settings and
  with the Prime rule switched off; and the sample candidate with an unknown seller
  count, already listed, which gets the outcome of the existing-listing check.\<close>

theorem single_seller_forbidden_witness:
  "runListing_target toLowerCase DEFAULT_SETTINGS
       (infoMap_of [sample_info\<lparr>ai_sellerCount := Some 1\<rparr>]) [] sample_product
     = Inl (outcome sample_product Status_forbidden (Msg_singleSeller (Some 1)) None) \<and>
   outcome sample_product Status_forbidden (Msg_singleSeller (Some 1)) None
     \<in> set (runListing toLowerCase (DEFAULT_SETTINGS\<lparr>primeOnly := False\<rparr>) [sample_product]
              [sample_info\<lparr>ai_sellerCount := Some 1\<rparr>] [] (\<lambda>payloads. [])) \<and>
   runListing_target toLowerCase DEFAULT_SETTINGS
       (infoMap_of [sample_info\<lparr>ai_sellerCount := None\<rparr>]) [js ''B00TEST001''] sample_product
     = Inl (outcome sample_product Status_exists Msg_exists None) \<and>
   r_message (outcome sample_product Status_exists Msg_exists None) \<noteq> Msg_singleSeller None"
proof -
  have h: "sample_product \<in> set [sample_product] \<and>
      infoMap_of [sample_info\<lparr>ai_sellerCount := Some 1\<rparr>] (p_asin sample_product)
        = Some (sample_info\<lparr>ai_sellerCount := Some 1\<rparr>) \<and>
      truthy_number (ai_price (sample_info\<lparr>ai_sellerCount := Some 1\<rparr>)) \<and>
      \<not> primeRejected settings (sample_info\<lparr>ai_sellerCount := Some 1\<rparr>) \<and>
      ai_sellerCount (sample_info\<lparr>ai_sellerCount := Some 1\<rparr>) = Some 1 \<and> (1 :: rat) \<le> 1"
    if "settings = DEFAULT_SETTINGS \<or> settings = DEFAULT_SETTINGS\<lparr>primeOnly := False\<rparr>"
    for settings
    using that by (auto simp: infoMap_of_def sample_data pipeline_checks)
  have listed: "runListing_target toLowerCase DEFAULT_SETTINGS
       (infoMap_of [sample_info\<lparr>ai_sellerCount := None\<rparr>]) [js ''B00TEST001''] sample_product
     = Inl (outcome sample_product Status_exists Msg_exists None)"
    by (simp add: runListing_target_def infoMap_of_def sample_data pipeline_checks)
  have k: "infoMap_of [sample_info\<lparr>ai_sellerCount := None\<rparr>] (p_asin sample_product)
        = Some (sample_info\<lparr>ai_sellerCount := None\<rparr>) \<and>
      ai_sellerCount (sample_info\<lparr>ai_sellerCount := None\<rparr>) = None \<and>
      runListing_target toLowerCase DEFAULT_SETTINGS
          (infoMap_of [sample_info\<lparr>ai_sellerCount := None\<rparr>]) [js ''B00TEST001'']
          sample_product
        = Inl (outcome sample_product Status_exists Msg_exists None)"
    using listed by (simp add: infoMap_of_def sample_data)
  from single_seller_forbidden [THEN conjunct1, rule_format, OF h [of DEFAULT_SETTINGS]]
    single_seller_forbidden [THEN conjunct1, rule_format,
      OF h [of "DEFAULT_SETTINGS\<lparr>primeOnly := False\<rparr>"]]
    single_seller_forbidden [THEN conjunct2, rule_format, OF k, of None]
    listed
  show ?thesis
    by simp
qed

text \<open>
  Claim C7 says that whenever a configured forbidden word is a substring of the name (and
  the earlier checks passed) the outcome is forbidden. The empty word is a substring of
  every name, and the filter \<open>w && p.name.includes(w)\<close> drops it: with the empty word
  as the only forbidden word the sample candidate is not rejected, its payload is built.
\<close>

theorem empty_forbidden_word_ignored:
  "[] \<in> set (noListWords (DEFAULT_SETTINGS\<lparr>noListWords := [[]]\<rparr>)) \<and>
   includes_js (p_name sample_product) [] \<and>
   infoMap_of [sample_info] (p_asin sample_product) = Some sample_info \<and>
   truthy_number (ai_price sample_info) \<and>
   \<not> primeRejected (DEFAULT_SETTINGS\<lparr>noListWords := [[]]\<rparr>) sample_info \<and>
   \<not> sellerRejected sample_info \<and>
   p_asin sample_product \<notin> set (noListASINs (DEFAULT_SETTINGS\<lparr>noListWords := [[]]\<rparr>)) \<and>
   runListing_target toLowerCase (DEFAULT_SETTINGS\<lparr>noListWords := [[]]\<rparr>)
       (infoMap_of [sample_info]) [] sample_product
     = Inr \<lparr>lp_asin = js ''B00TEST001'', lp_price = 3400, lp_shippingCode = js ''645035'',
            lp_title = sample_title, lp_imageUrl = None, lp_stock = Some 2,
            lp_categoryNo = Some 120000017, lp_jan = None\<rparr>"
  by (simp add: runListing_target_def infoMap_of_def sample_data pipeline_checks payload_defs)

text \<open>
  Claim C7, amended. Whenever a non-empty configured forbidden word is a substring of the
  name of a candidate that passed the availability, Prime, seller-count and ASIN
  deny-list checks, the outcome is forbidden and \<open>runListing\<close> reports it; its
  \<open>hitWords\<close> are the non-empty configured words that occur in the name, all of them, in
  the configured order. Where the configured words are distinct, their number is the
  number of matching words. Empty configured words are ignored.
\<close>

theorem forbidden_words_all_reported:
  "p \<in> set targets \<and> infoMap_of amazonInfos (p_asin p) = Some info \<and>
   truthy_number (ai_price info) \<and> \<not> primeRejected settings info \<and>
   \<not> sellerRejected info \<and> p_asin p \<notin> set (noListASINs settings) \<and>
   list_ex (\<lambda>w. w \<noteq> [] \<and> includes_js (p_name p) w) (noListWords settings) \<Longrightarrow>
   runListing_target lower settings (infoMap_of amazonInfos) existingAsins p
     = Inl (outcome p Status_forbidden (Msg_noListWords (hitWords_of settings p))
              (Some (hitWords_of settings p))) \<and>
   outcome p Status_forbidden (Msg_noListWords (hitWords_of settings p))
       (Some (hitWords_of settings p))
     \<in> set (runListing lower settings targets amazonInfos existingAsins create) \<and>
   set (hitWords_of settings p)
     = {w \<in> set (noListWords settings). w \<noteq> [] \<and> includes_js (p_name p) w} \<and>
   subseq (hitWords_of settings p) (noListWords settings) \<and>
   (distinct (noListWords settings) \<longrightarrow>
      length (hitWords_of settings p)
        = card {w \<in> set (noListWords settings). w \<noteq> [] \<and> includes_js (p_name p) w})"
proof -
  assume h: "p \<in> set targets \<and> infoMap_of amazonInfos (p_asin p) = Some info \<and>
   truthy_number (ai_price info) \<and> \<not> primeRejected settings info \<and>
   \<not> sellerRejected info \<and> p_asin p \<notin> set (noListASINs settings) \<and>
   list_ex (\<lambda>w. w \<noteq> [] \<and> includes_js (p_name p) w) (noListWords settings)"
  then have "hitWords_of settings p \<noteq> []"
    by (auto simp: hitWords_of_def filter_empty_conv list_ex_iff)
  with h have a: "runListing_target lower settings (infoMap_of amazonInfos) existingAsins p
      = Inl (outcome p Status_forbidden (Msg_noListWords (hitWords_of settings p))
               (Some (hitWords_of settings p)))"
    by (simp add: runListing_target_def Let_def)
  with h have b: "outcome p Status_forbidden (Msg_noListWords (hitWords_of settings p))
       (Some (hitWords_of settings p))
     \<in> set (runListing lower settings targets amazonInfos existingAsins create)"
    by (blast intro: target_outcome_reported)
  have c: "set (hitWords_of settings p)
      = {w \<in> set (noListWords settings). w \<noteq> [] \<and> includes_js (p_name p) w}"
    by (auto simp: hitWords_of_def)
  have d: "subseq (hitWords_of settings p) (noListWords settings)"
    by (simp add: hitWords_of_def)
  have e: "length (hitWords_of settings p)
        = card {w \<in> set (noListWords settings). w \<noteq> [] \<and> includes_js (p_name p) w}"
    if "distinct (noListWords settings)"
  proof -
    from that have "distinct (hitWords_of settings p)"
      by (simp add: hitWords_of_def)
    then have "card (set (hitWords_of settings p)) = length (hitWords_of settings p)"
      by (rule distinct_card)
    with c show ?thesis
      by simp
  qed
  from a b c d e show ?thesis
    by blast
qed

text \<open>The witness: the forbidden words are U+65E5 U+713C U+3051, \<open>"xyz"\<close>, the
  empty word and \<open>"50ml"\<close>; the first and the last occur in the name of the sample
  candidate, and the \<open>hitWords\<close> have length 2.\<close>

theorem forbidden_words_all_reported_witness:
  "hitWords_of
       (DEFAULT_SETTINGS\<lparr>noListWords := [[0x65E5, 0x713C, 0x3051], js ''xyz'', [], js ''50ml'']\<rparr>)
       sample_product
     = [[0x65E5, 0x713C, 0x3051], js ''50ml''] \<and>
   runListing_target toLowerCase
       (DEFAULT_SETTINGS\<lparr>noListWords := [[0x65E5, 0x713C, 0x3051], js ''xyz'', [], js ''50ml'']\<rparr>)
       (infoMap_of [sample_info]) [] sample_product
     = Inl (outcome sample_product Status_forbidden
              (Msg_noListWords [[0x65E5, 0x713C, 0x3051], js ''50ml''])
              (Some [[0x65E5, 0x713C, 0x3051], js ''50ml'']))"
proof -
  let ?s = "DEFAULT_SETTINGS\<lparr>noListWords := [[0x65E5, 0x713C, 0x3051], js ''xyz'', [], js ''50ml'']\<rparr>"
  have hw: "hitWords_of ?s sample_product = [[0x65E5, 0x713C, 0x3051], js ''50ml'']"
    by (simp add: sample_data hitWords_of_def)
  have h: "sample_product \<in> set [sample_product] \<and>
      infoMap_of [sample_info] (p_asin sample_product) = Some sample_info \<and>
      truthy_number (ai_price sample_info) \<and> \<not> primeRejected ?s sample_info \<and>
      \<not> sellerRejected sample_info \<and> p_asin sample_product \<notin> set (noListASINs ?s) \<and>
      list_ex (\<lambda>w. w \<noteq> [] \<and> includes_js (p_name sample_product) w) (noListWords ?s)"
    by (simp add: infoMap_of_def sample_data pipeline_checks)
  from forbidden_words_all_reported [OF h, THEN conjunct1, of toLowerCase "[]"] hw
  show ?thesis
    by simp
qed

text \<open>
  Claim C10 says that no candidate that passed the availability check can get the error
  of step 7 (price not positive after the rules). The availability check lets every
  price through that is not missing and not 0: a negative price passes, \<open>applyRule\<close>
  maps it to 0, and step 7 rejects the candidate.
\<close>

theorem negative_price_reaches_price_error:
  "infoMap_of [sample_info\<lparr>ai_price := Some (- 1)\<rparr>] (p_asin sample_product)
     = Some (sample_info\<lparr>ai_price := Some (- 1)\<rparr>) \<and>
   truthy_number (ai_price (sample_info\<lparr>ai_price := Some (- 1)\<rparr>)) \<and>
   applyRule (Some (- 1)) (rules DEFAULT_SETTINGS) = 0 \<and>
   runListing_target toLowerCase DEFAULT_SETTINGS
       (infoMap_of [sample_info\<lparr>ai_price := Some (- 1)\<rparr>]) [] sample_product
     = Inl (outcome sample_product Status_error Msg_priceInvalid None)"
  by (simp add: runListing_target_def infoMap_of_def sample_data pipeline_checks
      applyRule_def)

text \<open>
  Claim C10, amended. For every strictly positive price and every rule list,
  \<open>applyRule\<close> returns a value of at least 1; so a candidate whose source price is
  strictly positive never gets the error of step 7, whatever the settings.
\<close>

theorem positive_price_never_price_error:
  "(\<forall>price rs. 0 < price \<longrightarrow> 1 \<le> applyRule (Some price) rs) \<and>
   (\<forall>lower (settings :: SettingsState) infoMap existingAsins (p :: Product)
       (info :: AmazonItemInfo) price (r :: ListingResultItem).
      infoMap (p_asin p) = Some info \<and> ai_price info = Some price \<and> 0 < price \<and>
      r_message r = Msg_priceInvalid \<longrightarrow>
      runListing_target lower settings infoMap existingAsins p \<noteq> Inl r)"
proof (intro conjI allI impI)
  fix price :: rat and rs
  assume "0 < price"
  then show "1 \<le> applyRule (Some price) rs"
    by (simp add: applyRule_def Let_def)
next
  fix lower and settings :: SettingsState and infoMap existingAsins and p :: Product
    and info :: AmazonItemInfo and r :: ListingResultItem and price :: rat
  assume h: "infoMap (p_asin p) = Some info \<and> ai_price info = Some price \<and> 0 < price \<and>
      r_message r = Msg_priceInvalid"
  then have "1 \<le> applyRule (ai_price info) (rules settings)"
    by (simp add: applyRule_def Let_def)
  then have "\<not> (applyRule (ai_price info) (rules settings) = 0 \<or>
      applyRule (ai_price info) (rules settings) \<le> 0)"
    by linarith
  with h show "runListing_target lower settings infoMap existingAsins p \<noteq> Inl r"
    by (auto simp: runListing_target_def outcome_def Let_def split: if_splits)
qed

theorem positive_price_never_price_error_witness:
  "1 \<le> applyRule (Some 2500) DEFAULT_rules \<and>
   runListing_target toLowerCase DEFAULT_SETTINGS (infoMap_of [sample_info]) [] sample_product
     \<noteq> Inl (outcome sample_product Status_error Msg_priceInvalid None)"
proof -
  have h: "infoMap_of [sample_info] (p_asin sample_product) = Some sample_info \<and>
      ai_price sample_info = Some 2500 \<and> (0 :: rat) < 2500 \<and>
      r_message (outcome sample_product Status_error Msg_priceInvalid None) = Msg_priceInvalid"
    by (simp add: infoMap_of_def sample_data outcome_def)
  from positive_price_never_price_error [THEN conjunct1, rule_format, of 2500 DEFAULT_rules]
    positive_price_never_price_error [THEN conjunct2, rule_format,
      of "infoMap_of [sample_info]" sample_product sample_info 2500
        "outcome sample_product Status_error Msg_priceInvalid None"
        toLowerCase DEFAULT_SETTINGS "[]"] h
  show ?thesis
    by simp
qed

section \<open>Properties of the category choice\<close>

lemma manualCategory_first:
  "list_all (\<lambda>(k, c). k = [] \<or> \<not> includes_js titleLower (lower k)) pre \<Longrightarrow>
   key \<noteq> [] \<Longrightarrow> includes_js titleLower (lower key) \<Longrightarrow>
   manualCategory lower titleLower (pre @ (key, cat) # post) = Some cat"
  by (induction pre) auto

text \<open>
  Claim C4 says that an entry of the manual map whose lower-cased keyword is contained in
  the lower-cased title has its code returned. The loop skips an entry whose keyword is
  empty (\<open>if (!key) continue\<close>), although the empty keyword is contained in every
  title: with the single entry \<open>"" \<mapsto> 5\<close> the code 5 is not returned, the automatic
  cascade runs and gives the UV-care code for the sample title.
\<close>

theorem empty_manual_keyword_skipped:
  "categoryMap (DEFAULT_SETTINGS\<lparr>categoryMap := [([], 5)]\<rparr>) = [([], 5)] \<and>
   includes_js (toLowerCase (rawTitle_of (Some sample_info) sample_product)) (toLowerCase []) \<and>
   chooseCategory toLowerCase (Some sample_info) sample_product
       (DEFAULT_SETTINGS\<lparr>categoryMap := [([], 5)]\<rparr>)
     = Some 120000017"
  by (simp add: sample_data toLowerCase_def classifier_defs)

text \<open>
  Claim C4, amended. If some entry of the manual map with a non-empty keyword has its
  lower-cased keyword contained in the lower-cased title, \<open>chooseCategory\<close> returns the
  code of the first such entry in stored order, whether or not automatic classification
  is enabled and whatever the automatic cascade would answer for the title. Entries with
  an empty keyword are skipped.
\<close>

theorem manual_map_precedes_cascade:
  "categoryMap settings = pre @ (key, cat) # post \<and>
   list_all (\<lambda>(k, c). k = [] \<or> \<not> includes_js (lower (rawTitle_of info p)) (lower k)) pre \<and>
   key \<noteq> [] \<and> includes_js (lower (rawTitle_of info p)) (lower key) \<Longrightarrow>
   chooseCategory lower info p settings = Some cat"
  by (simp add: chooseCategory_def manualCategory_first)

text \<open>The witness: under the default map, a title made of the supplement keyword
  U+30B5 U+30D7 U+30EA, a space and the shampoo keyword gets the code 120000 of the
  shampoo entry, which comes first in the map, while the automatic cascade classifies the
  same title as supplement.\<close>

theorem manual_map_precedes_cascade_witness:
  "chooseCategory toLowerCase None
       (sample_product\<lparr>p_name := [0x30B5, 0x30D7, 0x30EA, 0x0020, 0x30B7, 0x30E3, 0x30F3, 0x30D7, 0x30FC]\<rparr>)
       DEFAULT_SETTINGS
     = Some 120000 \<and>
   main (classifyQoo10Category
       (Some [0x30B5, 0x30D7, 0x30EA, 0x0020, 0x30B7, 0x30E3, 0x30F3, 0x30D7, 0x30FC]))
     = Main_130000"
proof -
  let ?p = "sample_product\<lparr>p_name := [0x30B5, 0x30D7, 0x30EA, 0x0020, 0x30B7, 0x30E3, 0x30F3, 0x30D7, 0x30FC]\<rparr>"
  have h: "categoryMap DEFAULT_SETTINGS
        = [([0x30D8, 0x30CA], 120000)]
          @ ([0x30B7, 0x30E3, 0x30F3, 0x30D7, 0x30FC], 120000) # [([0x30B5, 0x30D7, 0x30EA], 130000)] \<and>
      list_all (\<lambda>(k, c). k = [] \<or>
          \<not> includes_js (toLowerCase (rawTitle_of None ?p)) (toLowerCase k))
        [([0x30D8, 0x30CA], 120000 :: rat)] \<and>
      [0x30B7, 0x30E3, 0x30F3, 0x30D7, 0x30FC] \<noteq> ([] :: jsstring) \<and>
      includes_js (toLowerCase (rawTitle_of None ?p))
        (toLowerCase [0x30B7, 0x30E3, 0x30F3, 0x30D7, 0x30FC])"
    by (simp add: sample_data rawTitle_of_def toLowerCase_def)
  have c: "main (classifyQoo10Category
       (Some [0x30B5, 0x30D7, 0x30EA, 0x0020, 0x30B7, 0x30E3, 0x30F3, 0x30D7, 0x30FC]))
     = Main_130000"
    by (simp add: classifier_defs)
  from manual_map_precedes_cascade [OF h] c show ?thesis
    by simp
qed

section \<open>Properties of the result aggregation\<close>

lemma status_cases:
  "st = Status_exists \<or> st = Status_forbidden \<or> st = Status_error \<or> st = Status_success"
  by (cases st) simp_all

lemma buckets_length:
  "length (filter (\<lambda>r. r_status r = Status_exists) rs)
     + length (filter (\<lambda>r. r_status r = Status_forbidden) rs)
     + length (filter (\<lambda>r. r_status r = Status_error) rs)
     + length (filter (\<lambda>r. r_status r = Status_success) rs) = length rs"
proof (induction rs)
  case Nil
  show ?case by simp
next
  case (Cons r rs)
  then show ?case by (cases "r_status r") simp_all
qed

lemma buckets_mset:
  "mset (filter (\<lambda>r. r_status r = Status_exists) rs)
     + mset (filter (\<lambda>r. r_status r = Status_forbidden) rs)
     + mset (filter (\<lambda>r. r_status r = Status_error) rs)
     + mset (filter (\<lambda>r. r_status r = Status_success) rs) = mset rs"
proof (induction rs)
  case Nil
  show ?case by simp
next
  case (Cons r rs)
  then show ?case by (cases "r_status r") simp_all
qed

lemma buckets_once:
  "r \<in> set rs \<Longrightarrow>
   length (filter (\<lambda>b. r \<in> set b)
     [filter (\<lambda>r. r_status r = Status_exists) rs,
      filter (\<lambda>r. r_status r = Status_forbidden) rs,
      filter (\<lambda>r. r_status r = Status_error) rs,
      filter (\<lambda>r. r_status r = Status_success) rs]) = 1"
  by (cases "r_status r") simp_all

text \<open>
  Claim C8. For every list of outcomes the four buckets partition it: their lengths add
  up to the length of the list, together they hold exactly the outcomes of the list, with
  multiplicity, every outcome of the list is in exactly one bucket, the one of its
  status, and each bucket keeps the order of the list. For the empty list, and only for
  it, the component renders nothing and no bucket is built.
\<close>

theorem buckets_partition:
  "case ListingResultInline (Some rs) of
     None \<Rightarrow> rs = []
   | Some b \<Rightarrow>
       length (b_exists b) + length (b_forbidden b) + length (b_error b) + length (b_success b)
         = length rs \<and>
       mset (b_exists b) + mset (b_forbidden b) + mset (b_error b) + mset (b_success b)
         = mset rs \<and>
       list_all (\<lambda>r. length (filter (\<lambda>b. r \<in> set b)
                       [b_exists b, b_forbidden b, b_error b, b_success b]) = 1) rs \<and>
       list_all (\<lambda>r. r_status r = Status_exists) (b_exists b) \<and>
       list_all (\<lambda>r. r_status r = Status_forbidden) (b_forbidden b) \<and>
       list_all (\<lambda>r. r_status r = Status_error) (b_error b) \<and>
       list_all (\<lambda>r. r_status r = Status_success) (b_success b) \<and>
       subseq (b_exists b) rs \<and> subseq (b_forbidden b) rs \<and>
       subseq (b_error b) rs \<and> subseq (b_success b) rs"
proof (cases rs)
  case Nil
  then show ?thesis
    by (simp add: ListingResultInline_def)
next
  case (Cons r rs')
  then have "ListingResultInline (Some rs)
      = Some \<lparr>b_exists = filter (\<lambda>r. r_status r = Status_exists) rs,
              b_forbidden = filter (\<lambda>r. r_status r = Status_forbidden) rs,
              b_error = filter (\<lambda>r. r_status r = Status_error) rs,
              b_success = filter (\<lambda>r. r_status r = Status_success) rs\<rparr>"
    by (simp add: ListingResultInline_def)
  moreover have "list_all (\<lambda>r. length (filter (\<lambda>b. r \<in> set b)
       [filter (\<lambda>r. r_status r = Status_exists) rs,
        filter (\<lambda>r. r_status r = Status_forbidden) rs,
        filter (\<lambda>r. r_status r = Status_error) rs,
        filter (\<lambda>r. r_status r = Status_success) rs]) = 1) rs"
    unfolding list_all_iff using buckets_once by blast
  ultimately show ?thesis
    using buckets_length [of rs] buckets_mset [of rs]
    by (simp add: list_all_iff)
qed

text \<open>The witness: an error, a forbidden outcome, a second error and an existing
  listing; no outcome has status success.\<close>

theorem buckets_partition_witness:
  "ListingResultInline
     (Some [outcome sample_product Status_error Msg_priceUnavailable None,
            outcome sample_product Status_forbidden Msg_noListAsin None,
            outcome sample_product Status_error Msg_priceInvalid None,
            outcome sample_product Status_exists Msg_exists None])
   = Some \<lparr>b_exists = [outcome sample_product Status_exists Msg_exists None],
           b_forbidden = [outcome sample_product Status_forbidden Msg_noListAsin None],
           b_error = [outcome sample_product Status_error Msg_priceUnavailable None,
                      outcome sample_product Status_error Msg_priceInvalid None],
           b_success = []\<rparr> \<and>
   length [outcome sample_product Status_exists Msg_exists None]
     + length [outcome sample_product Status_forbidden Msg_noListAsin None]
     + length [outcome sample_product Status_error Msg_priceUnavailable None,
               outcome sample_product Status_error Msg_priceInvalid None]
     + length ([] :: ListingResultItem list) = (4 :: nat)"
proof -
  let ?rs = "[outcome sample_product Status_error Msg_priceUnavailable None,
            outcome sample_product Status_forbidden Msg_noListAsin None,
            outcome sample_product Status_error Msg_priceInvalid None,
            outcome sample_product Status_exists Msg_exists None]"
  have v: "ListingResultInline (Some ?rs)
   = Some \<lparr>b_exists = [outcome sample_product Status_exists Msg_exists None],
           b_forbidden = [outcome sample_product Status_forbidden Msg_noListAsin None],
           b_error = [outcome sample_product Status_error Msg_priceUnavailable None,
                      outcome sample_product Status_error Msg_priceInvalid None],
           b_success = []\<rparr>"
    by (simp add: ListingResultInline_def outcome_def)
  from buckets_partition [of ?rs] v show ?thesis
    by simp
qed

section \<open>Properties of the API wrappers\<close>

text \<open>
  Claim C9. No wrapper rejects: each resolves to a value whatever the server does. When
  the call fails (\<open>fetch\<close> rejects, the response is not \<open>ok\<close>, or its body is not
  JSON), \<open>fetchAmazonBulk\<close> and \<open>checkQoo10Existing\<close> resolve to the empty list, and
  \<open>createQoo10Listings\<close> resolves to one result for each submitted payload, in order,
  with the payload's identifier and \<open>ok = false\<close>.
\<close>

theorem wrappers_degrade:
  "(\<exists>v. fetchAmazonBulk amazon asins = Inr v) \<and>
   (\<exists>v. checkQoo10Existing existing asins = Inr v) \<and>
   (\<exists>v. createQoo10Listings listing items = Inr v) \<and>
   (\<forall>e. postJson (amazon asins) = Inl e \<longrightarrow> fetchAmazonBulk amazon asins = Inr []) \<and>
   (\<forall>e. postJson (existing asins) = Inl e \<longrightarrow> checkQoo10Existing existing asins = Inr []) \<and>
   (\<forall>e. postJson (listing items) = Inl e \<longrightarrow>
      (\<exists>rs. createQoo10Listings listing items = Inr rs \<and>
            length rs = length items \<and>
            map cr_asin rs = map lp_asin items \<and>
            list_all (\<lambda>r. \<not> cr_ok r) rs))"
  by (auto simp: fetchAmazonBulk_def checkQoo10Existing_def createQoo10Listings_def
      list_all_iff comp_def split: sum.splits)

text \<open>The witness: an unreachable server, a server that answers 500, and one whose
  body is not JSON.\<close>

theorem wrappers_degrade_witness:
  "fetchAmazonBulk (\<lambda>body. Inl Fetch_failed) [js ''B00TEST001''] = Inr [] \<and>
   checkQoo10Existing
     (\<lambda>body. Inr \<lparr>res_ok = False, res_status = 500, res_json = Inr []\<rparr>)
     [js ''B00TEST001''] = Inr [] \<and>
   createQoo10Listings
     (\<lambda>body. Inr \<lparr>res_ok = True, res_status = 200, res_json = Inl Json_failed\<rparr>)
     [\<lparr>lp_asin = js ''B00TEST001'', lp_price = 3400, lp_shippingCode = js ''645035'',
       lp_title = sample_title, lp_imageUrl = None, lp_stock = Some 2,
       lp_categoryNo = Some 120000017, lp_jan = None\<rparr>]
     = Inr [\<lparr>cr_asin = js ''B00TEST001'', cr_ok = False,
             cr_message = Some CREATE_FAILED_MESSAGE, cr_code = None,
             cr_qoo10ItemCode = None\<rparr>]"
proof -
  let ?amazon = "\<lambda>body :: jsstring list. Inl Fetch_failed :: failure + AmazonItemInfo list Response"
  let ?existing = "\<lambda>body :: jsstring list.
      Inr \<lparr>res_ok = False, res_status = 500, res_json = Inr []\<rparr> :: failure + jsstring list Response"
  let ?listing = "\<lambda>body :: Qoo10ListingPayload list.
      Inr \<lparr>res_ok = True, res_status = 200, res_json = Inl Json_failed\<rparr>
        :: failure + CreateListingResult list Response"
  let ?items = "[\<lparr>lp_asin = js ''B00TEST001'', lp_price = 3400, lp_shippingCode = js ''645035'',
       lp_title = sample_title, lp_imageUrl = None, lp_stock = Some 2,
       lp_categoryNo = Some 120000017, lp_jan = None\<rparr>]"
  have h1: "postJson (?amazon [js ''B00TEST001'']) = Inl Fetch_failed"
    by (simp add: postJson_def)
  have h2: "postJson (?existing [js ''B00TEST001'']) = Inl (Http_error 500)"
    by (simp add: postJson_def)
  have h3: "postJson (?listing ?items) = Inl Json_failed"
    by (simp add: postJson_def)
  note w = wrappers_degrade [of ?amazon "[js ''B00TEST001'']" ?existing ?listing ?items]
  from w h1 have a: "fetchAmazonBulk ?amazon [js ''B00TEST001''] = Inr []"
    by blast
  from w h2 have b: "checkQoo10Existing ?existing [js ''B00TEST001''] = Inr []"
    by blast
  have c: "createQoo10Listings ?listing ?items
     = Inr [\<lparr>cr_asin = js ''B00TEST001'', cr_ok = False,
             cr_message = Some CREATE_FAILED_MESSAGE, cr_code = None,
             cr_qoo10ItemCode = None\<rparr>]"
    by (simp add: createQoo10Listings_def postJson_def)
  from a b c show ?thesis
    by simp
qed

section \<open>Properties of the identifier extraction\<close>

lemmas csv_defs =
  parseAsinCsv_def parseAsinCsv_row_def js_def trim_def isWhiteSpace_def stripQuotes_def
  isQuote_def isDelimiter_def toLowerCase_def toUpperCase_def isAsin_def isAlnum_def
  arrayFromSet_def List.map_filter_def

subsection \<open>What the extraction returns\<close>

lemma toUpperCase_identifier: "isAsin s \<Longrightarrow> isIdentifier (toUpperCase s)"
  by (auto simp: isAsin_def isIdentifier_def toUpperCase_def isAlnum_def list_all_iff)

lemma parseAsinCsv_row_identifier:
  "parseAsinCsv_row asinIndex row = Some y \<Longrightarrow> isIdentifier y"
  by (auto simp: parseAsinCsv_row_def Let_def toUpperCase_identifier split: if_splits)

lemma map_filter_identifier:
  "y \<in> set (List.map_filter (parseAsinCsv_row asinIndex) rows) \<Longrightarrow> isIdentifier y"
  by (auto simp: List.map_filter_def parseAsinCsv_row_identifier)

lemma set_insert_loop:
  "set (foldl (\<lambda>acc x. if x \<in> set acc then acc else acc @ [x]) acc xs) = set acc \<union> set xs"
  by (induction xs arbitrary: acc) auto

lemma distinct_insert_loop:
  "distinct acc \<Longrightarrow> distinct (foldl (\<lambda>acc x. if x \<in> set acc then acc else acc @ [x]) acc xs)"
  by (induction xs arbitrary: acc) auto

lemma insert_loop_distinct:
  "distinct (acc @ xs) \<Longrightarrow>
   foldl (\<lambda>acc x. if x \<in> set acc then acc else acc @ [x]) acc xs = acc @ xs"
  by (induction xs arbitrary: acc) auto

lemma set_arrayFromSet: "set (arrayFromSet xs) = set xs"
  by (simp add: arrayFromSet_def set_insert_loop)

lemma distinct_arrayFromSet: "distinct (arrayFromSet xs)"
  by (simp add: arrayFromSet_def distinct_insert_loop)

lemma arrayFromSet_distinct: "distinct xs \<Longrightarrow> arrayFromSet xs = xs"
  using insert_loop_distinct [of "[]" xs] by (simp add: arrayFromSet_def)

lemma parseAsinCsv_identifiers: "y \<in> set (parseAsinCsv text) \<Longrightarrow> isIdentifier y"
  by (auto simp: parseAsinCsv_def Let_def set_arrayFromSet
      split: list.splits dest: map_filter_identifier)

lemma parseAsinCsv_distinct: "distinct (parseAsinCsv text)"
  by (simp add: parseAsinCsv_def Let_def distinct_arrayFromSet split: list.splits)

subsection \<open>Reading a list of identifiers back\<close>

lemma identifier_chars:
  "isIdentifier s \<Longrightarrow> c \<in> set s \<Longrightarrow> (0x30 \<le> c \<and> c \<le> 0x39) \<or> (0x41 \<le> c \<and> c \<le> 0x5A)"
  by (auto simp: isIdentifier_def list_all_iff)

lemma identifier_nonempty: "isIdentifier s \<Longrightarrow> s \<noteq> []"
  by (auto simp: isIdentifier_def)

lemma splitLines_plain_cons:
  "c \<noteq> 0x0A \<Longrightarrow> c \<noteq> 0x0D \<Longrightarrow>
   splitLines (c # cs) = (case splitLines cs of [] \<Rightarrow> [[c]] | l # ls \<Rightarrow> (c # l) # ls)"
  by (cases cs) auto

lemma splitLines_plain:
  "\<forall>c \<in> set x. c \<noteq> 0x0A \<and> c \<noteq> 0x0D \<Longrightarrow> splitLines x = [x]"
  by (induction x) (simp_all add: splitLines_plain_cons)

lemma splitLines_newline: "splitLines (0x0A # rest) = [] # splitLines rest"
  by (cases rest) auto

lemma splitLines_plain_newline:
  "\<forall>c \<in> set x. c \<noteq> 0x0A \<and> c \<noteq> 0x0D \<Longrightarrow>
   splitLines (x @ 0x0A # rest) = x # splitLines rest"
  by (induction x) (simp_all add: splitLines_plain_cons splitLines_newline)

lemma splitLines_join:
  "ids \<noteq> [] \<Longrightarrow> \<forall>x \<in> set ids. \<forall>c \<in> set x. c \<noteq> 0x0A \<and> c \<noteq> 0x0D \<Longrightarrow>
   splitLines (join_js [0x0A] ids) = ids"
proof (induction "[0x0A] :: jsstring" ids rule: join_js.induct)
  case 1
  then show ?case by simp
next
  case (2 x)
  then show ?case by (simp add: splitLines_plain)
next
  case (3 x y ys)
  then show ?case by (simp add: splitLines_plain_newline)
qed

lemma trim_identifier: "isIdentifier s \<Longrightarrow> trim s = s"
proof -
  assume h: "isIdentifier s"
  then have ne: "s \<noteq> []"
    by (rule identifier_nonempty)
  from h ne have "\<not> isWhiteSpace (hd s)"
    using identifier_chars [of s "hd s"] by (auto simp: isWhiteSpace_def)
  then have a: "dropWhile isWhiteSpace s = s"
    by (simp add: dropWhile_eq_self_iff)
  from h ne have "\<not> isWhiteSpace (last s)"
    using identifier_chars [of s "last s"] by (auto simp: isWhiteSpace_def)
  with ne have "dropWhile isWhiteSpace (rev s) = rev s"
    by (simp add: dropWhile_eq_self_iff hd_rev)
  with a show ?thesis
    by (simp add: trim_def)
qed

lemma stripQuotes_identifier: "isIdentifier s \<Longrightarrow> stripQuotes s = s"
proof -
  assume h: "isIdentifier s"
  then have ne: "s \<noteq> []"
    by (rule identifier_nonempty)
  from h ne have "\<not> isQuote (hd s)"
    using identifier_chars [of s "hd s"] by (auto simp: isQuote_def)
  then have a: "dropWhile isQuote s = s"
    by (simp add: dropWhile_eq_self_iff)
  from h ne have "\<not> isQuote (last s)"
    using identifier_chars [of s "last s"] by (auto simp: isQuote_def)
  with ne have "dropWhile isQuote (rev s) = rev s"
    by (simp add: dropWhile_eq_self_iff hd_rev)
  with a show ?thesis
    by (simp add: stripQuotes_def)
qed

lemma splitOn_none: "\<forall>c \<in> set s. \<not> sep c \<Longrightarrow> splitOn sep s = [s]"
  by (induction s) simp_all

lemma splitOn_identifier: "isIdentifier s \<Longrightarrow> splitOn isDelimiter s = [s]"
proof (rule splitOn_none, rule ballI)
  fix c
  assume "isIdentifier s" and "c \<in> set s"
  then show "\<not> isDelimiter c"
    using identifier_chars [of s c] by (auto simp: isDelimiter_def)
qed

lemma toUpperCase_fixes_identifier: "isIdentifier s \<Longrightarrow> toUpperCase s = s"
proof -
  assume h: "isIdentifier s"
  have "map (\<lambda>c. if 0x61 \<le> c \<and> c \<le> 0x7A then c - 0x20 else c) s = map (\<lambda>c. c) s"
  proof (rule map_cong [OF refl])
    fix c
    assume "c \<in> set s"
    with h show "(if 0x61 \<le> c \<and> c \<le> 0x7A then c - 0x20 else c) = c"
      using identifier_chars [of s c] by auto
  qed
  then show ?thesis
    by (simp add: toUpperCase_def)
qed

lemma identifier_isAsin: "isIdentifier s \<Longrightarrow> isAsin s"
  by (auto simp: isIdentifier_def isAsin_def isAlnum_def list_all_iff)

lemma identifier_not_header: "isIdentifier s \<Longrightarrow> toLowerCase s \<noteq> js ''asin''"
proof
  assume h: "isIdentifier s" and eq: "toLowerCase s = js ''asin''"
  from h have "length (toLowerCase s) = 10"
    by (simp add: isIdentifier_def toLowerCase_def)
  moreover from eq have "length (toLowerCase s) = length (js ''asin'')"
    by simp
  ultimately show False
    by (simp add: js_def)
qed

lemma parseAsinCsv_row_reads_identifier:
  "isIdentifier s \<Longrightarrow> parseAsinCsv_row None s = Some s"
  by (simp add: parseAsinCsv_row_def splitOn_identifier trim_identifier
      stripQuotes_identifier identifier_isAsin toUpperCase_fixes_identifier
      identifier_nonempty)

lemma map_filter_reads_identifiers:
  "\<forall>x \<in> set ids. isIdentifier x \<Longrightarrow> List.map_filter (parseAsinCsv_row None) ids = ids"
  by (induction ids) (simp_all add: List.map_filter_def parseAsinCsv_row_reads_identifier)

lemma parseAsinCsv_reads_identifiers:
  assumes ids: "\<forall>x \<in> set ids. isIdentifier x" and d: "distinct ids"
  shows "parseAsinCsv (join_js [0x0A] ids) = ids"
proof (cases ids)
  case Nil
  then show ?thesis
    by (simp add: parseAsinCsv_def trim_def)
next
  case (Cons x xs)
  from ids have plain: "\<forall>x \<in> set ids. \<forall>c \<in> set x. c \<noteq> 0x0A \<and> c \<noteq> 0x0D"
    using identifier_chars by fastforce
  with Cons have lines: "splitLines (join_js [0x0A] ids) = ids"
    by (simp add: splitLines_join)
  from ids have "map trim ids = ids"
    by (simp add: map_idI trim_identifier)
  moreover from ids have "filter (\<lambda>l. l \<noteq> []) ids = ids"
    by (simp add: identifier_nonempty)
  ultimately have kept: "filter (\<lambda>l. l \<noteq> []) (map trim (splitLines (join_js [0x0A] ids))) = x # xs"
    using lines Cons by simp
  from ids Cons have x: "isIdentifier x"
    by simp
  then have bom: "hd x \<noteq> 0xFEFF"
    using identifier_chars [of x "hd x"] identifier_nonempty [of x] by auto
  from x have header:
    "indexOf (map (\<lambda>c. toLowerCase (trim (stripQuotes c))) (splitOn isDelimiter x)) (js ''asin'')
       = None"
    by (simp add: splitOn_identifier stripQuotes_identifier trim_identifier
        identifier_not_header)
  from ids Cons have rows: "List.map_filter (parseAsinCsv_row None) (x # xs) = x # xs"
    using map_filter_reads_identifiers [of ids] by simp
  from d Cons have "arrayFromSet (x # xs) = x # xs"
    using arrayFromSet_distinct [of ids] by simp
  with kept bom header rows Cons show ?thesis
    by (simp add: parseAsinCsv_def)
qed

text \<open>
  Claim C6 gives \<open>"B00TEST0001\nB00TEST0001"\<close> as an input whose extraction is the one
  identifier \<open>B00TEST0001\<close>. That text has eleven characters on each line; the pattern
  \<open>/^[A-Z0-9]{10}$/i\<close> accepts ten, so both lines are dropped and the extraction is
  empty.
\<close>

theorem eleven_characters_rejected:
  "length (js ''B00TEST0001'') = 11 \<and>
   parseAsinCsv (js ''B00TEST0001'' @ [0x0A] @ js ''B00TEST0001'') = []"
  by (simp add: csv_defs)

text \<open>
  Claim C6, amended. The extraction removes duplicates: two lines with the same
  identifier of ten characters, \<open>"B00TEST001\nB00TEST001"\<close>, give the one identifier
  \<open>B00TEST001\<close>; and it is idempotent on its own output: for every text, extracting
  from the identifiers it gave, joined by newlines, gives the same list again. The
  identifiers it gives are distinct and each matches \<open>^[A-Z0-9]{10}$\<close>.
\<close>

theorem parseAsinCsv_idempotent:
  "parseAsinCsv (js ''B00TEST001'' @ [0x0A] @ js ''B00TEST001'') = [js ''B00TEST001''] \<and>
   parseAsinCsv (join_js [0x0A] (parseAsinCsv text)) = parseAsinCsv text \<and>
   distinct (parseAsinCsv text) \<and>
   list_all isIdentifier (parseAsinCsv text)"
proof (intro conjI)
  show "parseAsinCsv (js ''B00TEST001'' @ [0x0A] @ js ''B00TEST001'') = [js ''B00TEST001'']"
    by (simp add: csv_defs)
  show "parseAsinCsv (join_js [0x0A] (parseAsinCsv text)) = parseAsinCsv text"
    by (rule parseAsinCsv_reads_identifiers)
      (simp_all add: parseAsinCsv_identifiers parseAsinCsv_distinct)
  show "distinct (parseAsinCsv text)"
    by (rule parseAsinCsv_distinct)
  show "list_all isIdentifier (parseAsinCsv text)"
    by (simp add: list_all_iff parseAsinCsv_identifiers)
qed

text \<open>The witness: a file with a header row, quoted and lower-case cells, a blank line,
  a repeated identifier and a row that is too short gives two identifiers, and reading
  them back gives the same two.\<close>

theorem parseAsinCsv_idempotent_witness:
  "parseAsinCsv
     (js ''Title,\"ASIN\",x'' @ [0x0D, 0x0A] @ js ''foo; 'b00test001' ;bar'' @ [0x0A, 0x0A]
      @ js ''a,B00TEST002'' @ [0x0A] @ js ''b,B00TEST001,c'' @ [0x0A] @ js ''short'')
     = [js ''B00TEST001'', js ''B00TEST002''] \<and>
   parseAsinCsv (join_js [0x0A] [js ''B00TEST001'', js ''B00TEST002''])
     = [js ''B00TEST001'', js ''B00TEST002'']"
proof -
  let ?text = "js ''Title,\"ASIN\",x'' @ [0x0D, 0x0A] @ js ''foo; 'b00test001' ;bar''
      @ [0x0A, 0x0A] @ js ''a,B00TEST002'' @ [0x0A] @ js ''b,B00TEST001,c'' @ [0x0A]
      @ js ''short''"
  have v: "parseAsinCsv ?text = [js ''B00TEST001'', js ''B00TEST002'']"
    by (simp add: csv_defs)
  from parseAsinCsv_idempotent [of ?text] v show ?thesis
    by simp
qed

end
